theory Spec2Isabelle
  imports Main "HOL-Library.Sublist"
begin

section \<open>JavaScript values used by the handlers\<close>

text \<open>
  The relay consists of HTTP handlers written in JavaScript. Three source files are
  modelled:
  \<^item> \<^verbatim>\<open>src/app/api/tgchannel/route.js\<close>: the upload handler \<open>POST_tgchannel\<close> with its
    helpers \<open>getFile\<close>, \<open>getFile_path_tgchannel\<close>, \<open>getRating_tgchannel\<close> and
    \<open>insertImageData_tgchannel\<close>;
  \<^item> \<^verbatim>\<open>part_000\<close>, which holds two routes: first the retrieval handler \<open>GET_cfile\<close> and
    the upload handler \<open>POST_cfile\<close> with \<open>insertViewLog\<close> and \<open>getRatingFromDb\<close>, then the
    older retrieval handler \<open>GET_legacy\<close> with \<open>getFile_path_legacy\<close>, \<open>insertTgImgLog\<close> and
    \<open>getRating_legacy\<close>;
  \<^item> \<^verbatim>\<open>part_001\<close>: the upload handler \<open>POST_upload\<close> with \<open>getTelegramEndpoint\<close>,
    \<open>extractFileData\<close>, \<open>getFilePath\<close>, \<open>getRating\<close> and \<open>insertImageData\<close>.

  Where two files define a function of the same name, the suffixes \<open>_tgchannel\<close> and
  \<open>_legacy\<close> tell them apart.

  An exception is a value of \<open>js_error\<close>; a computation that may throw returns
  \<open>js_error + 'a\<close>. A field that may be \<^verbatim>\<open>undefined\<close> or \<^verbatim>\<open>null\<close> is an \<open>option\<close>.
  A handler returns its answer (or the exception that leaves it) together with the list
  of its effects.
\<close>

datatype js_error = TypeError | FetchError | SyntaxError

text \<open>Truthiness of a string-or-undefined value, and \<^verbatim>\<open>a || b\<close> with a string default.\<close>

fun truthy :: "string option \<Rightarrow> bool" where
  "truthy None = False"
| "truthy (Some s) = (s \<noteq> [])"

fun or_else :: "string option \<Rightarrow> string \<Rightarrow> string" where
  "or_else None d = d"
| "or_else (Some s) d = (if s = [] then d else s)"

text \<open>
  \<^verbatim>\<open>a > b\<close> on numbers that may be \<^verbatim>\<open>undefined\<close>: \<^verbatim>\<open>undefined\<close> converts to NaN and
  every comparison with NaN is false.
\<close>

fun js_gt :: "int option \<Rightarrow> int option \<Rightarrow> bool" where
  "js_gt (Some a) (Some b) = (a > b)"
| "js_gt _ _ = False"

text \<open>
  \<^verbatim>\<open>Array.prototype.reduce\<close> without an initial value: the first element starts the
  accumulator, and an empty array raises a TypeError.
\<close>

fun reduce :: "('a \<Rightarrow> 'a \<Rightarrow> 'a) \<Rightarrow> 'a list \<Rightarrow> js_error + 'a" where
  "reduce f [] = Inl TypeError"
| "reduce f (x # xs) = Inr (foldl f x xs)"

section \<open>Responses of the messaging backend\<close>

text \<open>
  A file object of the backend (a photo size, a document, a video or an audio): the
  fields the handlers read. \<open>file_name\<close> and \<open>file_size\<close> are optional in the backend's
  API.
\<close>

record tg_file =
  file_id :: string
  file_unique_id :: string
  file_name :: "string option"
  file_size :: "int option"

record tg_result =
  photo :: "tg_file list option"
  video :: "tg_file option"
  document :: "tg_file option"
  audio :: "tg_file option"

record tg_response =
  ok :: bool
  result :: "tg_result option"

text \<open>The object \<^verbatim>\<open>{ file_id, file_name }\<close> returned by the extraction helpers.\<close>

record uploaded_file =
  uf_file_id :: string
  uf_file_name :: string

section \<open>Endpoint selection\<close>

record endpoint_sel =
  endpoint :: string
  formFieldName :: string

text \<open>\<^verbatim>\<open>getTelegramEndpoint\<close>, the same text in both files that define it.\<close>

definition getTelegramEndpoint :: "string \<Rightarrow> endpoint_sel" where
  "getTelegramEndpoint fileType =
     (if prefix ''image/'' fileType then \<lparr>endpoint = ''sendPhoto'', formFieldName = ''photo''\<rparr>
      else if prefix ''video/'' fileType then \<lparr>endpoint = ''sendVideo'', formFieldName = ''video''\<rparr>
      else if prefix ''audio/'' fileType then \<lparr>endpoint = ''sendAudio'', formFieldName = ''audio''\<rparr>
      else \<lparr>endpoint = ''sendDocument'', formFieldName = ''document''\<rparr>)"

text \<open>
  The tgchannel route keeps a table \<^verbatim>\<open>fileTypeMap\<close> (an object literal, whose keys are
  enumerated in insertion order) and a \<^verbatim>\<open>defaultType\<close>. It searches the keys for the first
  one the MIME type starts with and reads the table at that key. The source names the two
  fields \<^verbatim>\<open>url\<close> and \<^verbatim>\<open>type\<close>; they are the \<open>endpoint\<close> and the \<open>formFieldName\<close> here.
\<close>

definition fileTypeMap :: "(string \<times> endpoint_sel) list" where
  "fileTypeMap =
     [(''image/'', \<lparr>endpoint = ''sendPhoto'', formFieldName = ''photo''\<rparr>),
      (''video/'', \<lparr>endpoint = ''sendVideo'', formFieldName = ''video''\<rparr>),
      (''audio/'', \<lparr>endpoint = ''sendAudio'', formFieldName = ''audio''\<rparr>),
      (''application/pdf'', \<lparr>endpoint = ''sendDocument'', formFieldName = ''document''\<rparr>)]"

definition defaultType :: endpoint_sel where
  "defaultType = \<lparr>endpoint = ''sendDocument'', formFieldName = ''document''\<rparr>"

text \<open>
  \<^verbatim>\<open>fileType\<close> is \<^verbatim>\<open>undefined\<close> when the form field is not a file; calling
  \<^verbatim>\<open>startsWith\<close> on it raises a TypeError.
\<close>

definition selectFileType :: "string option \<Rightarrow> js_error + endpoint_sel" where
  "selectFileType fileType =
     (case fileType of
        None \<Rightarrow> Inl TypeError
      | Some t \<Rightarrow>
          (case find (\<lambda>key. prefix key t) (map fst fileTypeMap) of
             None \<Rightarrow> Inr defaultType
           | Some key \<Rightarrow>
               (case map_of fileTypeMap key of
                  None \<Rightarrow> Inl TypeError
                | Some v \<Rightarrow> Inr v)))"

section \<open>Extraction of the file identity\<close>

text \<open>The callback of the \<^verbatim>\<open>reduce\<close> over the photo sizes.\<close>

definition larger :: "tg_file \<Rightarrow> tg_file \<Rightarrow> tg_file" where
  "larger prev current = (if js_gt (file_size prev) (file_size current) then prev else current)"

text \<open>\<^verbatim>\<open>result.document || result.video || result.audio\<close>: objects are truthy.\<close>

fun first_of :: "'a option list \<Rightarrow> 'a option" where
  "first_of [] = None"
| "first_of (None # xs) = first_of xs"
| "first_of (Some x # xs) = Some x"

text \<open>
  \<^verbatim>\<open>extractFileData\<close>, the same text in both files that define it. A photo array is
  truthy even when empty. No \<^verbatim>\<open>try\<close> surrounds the body: a TypeError reaches the caller.
\<close>

definition extractFileData :: "tg_response \<Rightarrow> js_error + uploaded_file option" where
  "extractFileData responseData =
     (if \<not> ok responseData then Inr None
      else case result responseData of
        None \<Rightarrow> Inl TypeError
      | Some res \<Rightarrow>
          (case photo res of
             Some sizes \<Rightarrow>
               (case reduce larger sizes of
                  Inl e \<Rightarrow> Inl e
                | Inr largestPhoto \<Rightarrow>
                    Inr (Some \<lparr>uf_file_id = file_id largestPhoto,
                               uf_file_name = file_unique_id largestPhoto\<rparr>))
           | None \<Rightarrow>
               (case first_of [document res, video res, audio res] of
                  Some file \<Rightarrow>
                    Inr (Some \<lparr>uf_file_id = file_id file,
                               uf_file_name = or_else (file_name file) (file_unique_id file)\<rparr>)
                | None \<Rightarrow> Inr None)))"

text \<open>
  \<^verbatim>\<open>getFile\<close> of the tgchannel route: photo, then video, then document. \<open>getFile_try\<close> is
  the body of its \<^verbatim>\<open>try\<close>; \<open>getFile\<close> adds the \<^verbatim>\<open>catch\<close>, which writes to the console and
  gives \<^verbatim>\<open>null\<close>.
\<close>

definition getFileDetails :: "tg_file \<Rightarrow> uploaded_file" where
  "getFileDetails file =
     \<lparr>uf_file_id = file_id file,
      uf_file_name = or_else (file_name file) (file_unique_id file)\<rparr>"

definition getFile_try :: "tg_response \<Rightarrow> js_error + uploaded_file option" where
  "getFile_try response =
     (if \<not> ok response then Inr None
      else case result response of
        None \<Rightarrow> Inl TypeError
      | Some res \<Rightarrow>
          (case photo res of
             Some sizes \<Rightarrow>
               (case reduce larger sizes of
                  Inl e \<Rightarrow> Inl e
                | Inr largestPhoto \<Rightarrow> Inr (Some (getFileDetails largestPhoto)))
           | None \<Rightarrow>
               (case video res of
                  Some v \<Rightarrow> Inr (Some (getFileDetails v))
                | None \<Rightarrow>
                    (case document res of
                       Some d \<Rightarrow> Inr (Some (getFileDetails d))
                     | None \<Rightarrow> Inr None))))"

section \<open>Requests, configuration and the outside world\<close>

text \<open>
  A file of a multipart form (\<^verbatim>\<open>File\<close>), and the value of a form field: a string or a
  file.
\<close>

record file_obj =
  name :: string
  type :: string

datatype form_value = FormString string | FormFile file_obj

text \<open>
  The request: the origin of its URL, the headers the handlers read (\<^verbatim>\<open>headers.get\<close>
  gives \<^verbatim>\<open>null\<close> for a missing header), the \<^verbatim>\<open>socket\<close> property (\<open>None\<close> when the
  request object has none, otherwise its \<^verbatim>\<open>remoteAddress\<close>), and the outcome of
  \<^verbatim>\<open>request.formData()\<close>: the fields in order, or an exception.
\<close>

record request =
  origin :: string
  Referer :: "string option"
  CF_Connecting_IP :: "string option"
  x_forwarded_for :: "string option"
  x_real_ip :: "string option"
  socket :: "string option option"
  formData :: "js_error + (string \<times> form_value) list"

text \<open>The environment bindings. \<open>IMG\<close> tells whether the relational store is bound.\<close>

record env =
  TG_BOT_TOKEN :: string
  TG_CHAT_ID :: string
  IMG :: bool
  RATINGAPI :: "string option"
  ModerateContentApiKey :: "string option"

text \<open>
  The parsed body of the backend's \<^verbatim>\<open>getFile\<close> answer: the \<^verbatim>\<open>ok\<close> flag and the
  \<^verbatim>\<open>result\<close> object (\<open>None\<close> when absent), of which only \<^verbatim>\<open>file_path\<close> is read
  (\<open>Some None\<close> when the object has no such field).
\<close>

record getfile_json =
  gf_ok :: bool
  gf_result :: "string option option"

text \<open>
  The answer to the upload call: the HTTP-level \<^verbatim>\<open>ok\<close> flag and the outcome of
  \<^verbatim>\<open>json()\<close>. The answer to the download of the bytes: \<^verbatim>\<open>ok\<close>, the status and the body.
\<close>

record send_response =
  http_ok :: bool
  json :: "js_error + tg_response"

record download =
  dl_ok :: bool
  dl_status :: nat
  dl_body :: string

text \<open>
  The outside world of one request: what each outbound call answers. An \<open>Inl\<close> is a
  rejected \<^verbatim>\<open>fetch\<close> (or, for the calls whose body is parsed at once, a failing
  \<^verbatim>\<open>json()\<close>). The rating service's answer is reduced to its own \<^verbatim>\<open>rating_index\<close>
  property, \<open>None\<close> when the body has none. The table \<^verbatim>\<open>imginfo\<close> is reduced to the
  rating stored for a URL path; the four flags say which statements on the store fail.
\<close>

record world =
  getFile_reply :: "js_error + getfile_json"
  upload_reply :: "js_error + send_response"
  download_reply :: "js_error + download"
  rating_reply :: "js_error + int option"
  imginfo :: "string \<rightharpoonup> int"
  select_throws :: bool
  insert_throws :: bool
  log_insert_throws :: bool
  increment_throws :: bool
  now :: string

text \<open>
  What a handler does besides answering, in the order it is issued: calls to the
  messaging backend (the upload with its endpoint and form field, \<^verbatim>\<open>getFile\<close> with the
  identifier, the download with the path), the call to the rating service (with the file
  path put into its URL), the statements on the store, and each line written to the
  console.
\<close>

datatype effect =
    TelegramSend string string
  | TelegramGetFile string
  | TelegramDownload string
  | RatingApiCall string
  | LogInsert string string string string
  | ImginfoInsert string string string int string
  | ImginfoSelect string
  | ImginfoIncrement string
  | Console

fun is_log_insert :: "effect \<Rightarrow> bool" where
  "is_log_insert (LogInsert _ _ _ _) = True"
| "is_log_insert _ = False"

fun is_rating_query :: "effect \<Rightarrow> bool" where
  "is_rating_query (ImginfoSelect _) = True"
| "is_rating_query _ = False"

fun is_increment :: "effect \<Rightarrow> bool" where
  "is_increment (ImginfoIncrement _) = True"
| "is_increment _ = False"

section \<open>Responses\<close>

text \<open>
  A JSON body is the list of its fields. Of the headers, only \<^verbatim>\<open>Location\<close> and
  \<^verbatim>\<open>Content-Disposition\<close> are kept; the CORS headers and the content type are constants
  of each file. Message texts that the source writes in Chinese are given in English.
\<close>

datatype jval = JStr string | JNum int | JBool bool | JResp tg_response

datatype body = Json "(string \<times> jval) list" | Bytes string | NoBody

record response =
  status :: nat
  location :: "string option"
  content_disposition :: "string option"
  body :: body

definition json_response :: "nat \<Rightarrow> (string \<times> jval) list \<Rightarrow> response" where
  "json_response st kvs =
     \<lparr>status = st, location = None, content_disposition = None, body = Json kvs\<rparr>"

definition file_response :: "string \<Rightarrow> string \<Rightarrow> response" where
  "file_response disposition bytes =
     \<lparr>status = 200, location = None, content_disposition = Some disposition, body = Bytes bytes\<rparr>"

definition redirect :: "string \<Rightarrow> nat \<Rightarrow> response" where
  "redirect url st =
     \<lparr>status = st, location = Some url, content_disposition = None, body = NoBody\<rparr>"

text \<open>\<^verbatim>\<open>error.message\<close>: the texts are the runtime's; a name stands for each.\<close>

fun message :: "js_error \<Rightarrow> string" where
  "message TypeError = ''TypeError''"
| "message FetchError = ''fetch failed''"
| "message SyntaxError = ''SyntaxError''"

text \<open>\<^verbatim>\<open>file_path.split('/').pop()\<close>, and \<^verbatim>\<open>ip.split(',')[0].trim()\<close>.\<close>

definition last_segment :: "string \<Rightarrow> string" where
  "last_segment p = rev (takeWhile (\<lambda>c. c \<noteq> CHR ''/'') (rev p))"

definition is_space :: "char \<Rightarrow> bool" where
  "is_space c = (c \<in> set [CHR '' '', CHR 0x09, CHR 0x0A, CHR 0x0B, CHR 0x0C, CHR 0x0D])"

definition trim :: "string \<Rightarrow> string" where
  "trim s = rev (dropWhile is_space (rev (dropWhile is_space s)))"

definition first_address :: "string option \<Rightarrow> string" where
  "first_address ip =
     (if truthy ip then trim (takeWhile (\<lambda>c. c \<noteq> CHR '','') (or_else ip []))
      else ''IP not found'')"

text \<open>A value put into a template string: \<^verbatim>\<open>undefined\<close> prints as its name.\<close>

fun template :: "string option \<Rightarrow> string" where
  "template None = ''undefined''"
| "template (Some s) = s"

section \<open>Upload with deferred bookkeeping\<close>

text \<open>
  Two files hold the same upload handler up to names, message language and the prefix of
  the recorded URL path (\<^verbatim>\<open>/cfile/\<close> in one, \<^verbatim>\<open>/api/cfile/\<close> in the other). Their helpers
  are modelled once: \<open>getFilePath\<close> (also \<^verbatim>\<open>getFilePathFromTelegram\<close>), \<open>getRating\<close> (also
  \<^verbatim>\<open>getRatingFromApi\<close>) and \<open>insertImageData\<close> (also \<^verbatim>\<open>insertUploadData\<close>).

  \<open>getFilePath\<close>: \<^verbatim>\<open>null\<close> when the call or its parsing fails, when the answer is not ok,
  and when the answer has no \<^verbatim>\<open>result\<close> (the TypeError is caught); otherwise the
  \<^verbatim>\<open>file_path\<close> field, which may be missing.
\<close>

definition getFilePath :: "world \<Rightarrow> string \<Rightarrow> string option \<times> effect list" where
  "getFilePath w fid =
     (case getFile_reply w of
        Inl e \<Rightarrow> (None, [TelegramGetFile fid, Console])
      | Inr d \<Rightarrow>
          if gf_ok d then
            (case gf_result d of
               None \<Rightarrow> (None, [TelegramGetFile fid, Console])
             | Some p \<Rightarrow> (p, [TelegramGetFile fid]))
          else (None, [TelegramGetFile fid, Console]))"

text \<open>
  \<^verbatim>\<open>env.RATINGAPI || (env.ModerateContentApiKey ? `...?key=${...}&` : null)\<close>
\<close>

definition ratingApiBase :: "env \<Rightarrow> string option" where
  "ratingApiBase env =
     (if truthy (RATINGAPI env) then RATINGAPI env
      else if truthy (ModerateContentApiKey env)
        then Some (''https://api.moderatecontent.com/moderate/?key=''
                   @ template (ModerateContentApiKey env) @ ''&'')
      else None)"

definition getRating :: "env \<Rightarrow> world \<Rightarrow> string \<Rightarrow> int \<times> effect list" where
  "getRating env w fid =
     (case getFilePath w fid of
        (filePath, e1) \<Rightarrow>
          if \<not> truthy filePath then (- 1, e1)
          else if \<not> truthy (ratingApiBase env) then (0, e1)
          else
            (case rating_reply w of
               Inl e \<Rightarrow> (- 1, e1 @ [RatingApiCall (template filePath), Console])
             | Inr None \<Rightarrow> (- 1, e1 @ [RatingApiCall (template filePath)])
             | Inr (Some r) \<Rightarrow> (r, e1 @ [RatingApiCall (template filePath)])))"

text \<open>The insert into \<^verbatim>\<open>imginfo\<close>; a failure is caught and written to the console.\<close>

definition insertImageData ::
  "world \<Rightarrow> string \<Rightarrow> string \<Rightarrow> string \<Rightarrow> int \<Rightarrow> string \<Rightarrow> effect list" where
  "insertImageData w src referer ip rating time =
     (if insert_throws w then [ImginfoInsert src referer ip rating time, Console]
      else [ImginfoInsert src referer ip rating time])"

text \<open>
  The task handed to \<^verbatim>\<open>ctx.waitUntil\<close>: nothing awaits it, and each of its steps catches
  its own failures.
\<close>

definition bookkeeping ::
  "string \<Rightarrow> env \<Rightarrow> world \<Rightarrow> string \<Rightarrow> string \<Rightarrow> string \<Rightarrow> effect list" where
  "bookkeeping pathPrefix env w fid referer clientIp =
     (if IMG env then
        (let nowTime = now w in
         case getRating env w fid of
           (ratingIndex, e1) \<Rightarrow>
             e1 @ insertImageData w (pathPrefix @ fid) referer clientIp ratingIndex nowTime)
      else [])"

definition unexpected_error :: "js_error \<Rightarrow> response" where
  "unexpected_error e =
     json_response 500 [(''message'', JStr (''An unexpected error occurred: '' @ message e))]"

definition upload_handler ::
  "string \<Rightarrow> request \<Rightarrow> env \<Rightarrow> world \<Rightarrow> (js_error + response) \<times> effect list" where
  "upload_handler pathPrefix request env w =
     (let clientIp = or_else (CF_Connecting_IP request) ''IP not found'';
          referer = or_else (Referer request) ''Referer not found''
      in case formData request of
        Inl e \<Rightarrow> (Inr (unexpected_error e), [Console])
      | Inr form \<Rightarrow>
          (case map_of form ''file'' of
             None \<Rightarrow>
               (Inr (json_response 400 [(''message'', JStr ''File not provided or is invalid.'')]), [])
           | Some (FormString s) \<Rightarrow>
               (Inr (json_response 400 [(''message'', JStr ''File not provided or is invalid.'')]), [])
           | Some (FormFile file) \<Rightarrow>
               (let sel = getTelegramEndpoint (type file);
                    send = TelegramSend (endpoint sel) (formFieldName sel)
                in case upload_reply w of
                  Inl e \<Rightarrow> (Inr (unexpected_error e), [send, Console])
                | Inr telegramResponse \<Rightarrow>
                    (case json telegramResponse of
                       Inl e \<Rightarrow> (Inr (unexpected_error e), [send, Console])
                     | Inr telegramResult \<Rightarrow>
                         if \<not> http_ok telegramResponse \<or> \<not> ok telegramResult then
                           (Inr (json_response 502
                                  [(''message'', JStr ''Failed to upload file to Telegram.''),
                                   (''telegram_response'', JResp telegramResult)]),
                            [send, Console])
                         else
                           (case extractFileData telegramResult of
                              Inl e \<Rightarrow> (Inr (unexpected_error e), [send, Console])
                            | Inr None \<Rightarrow>
                                (Inr (json_response 500
                                       [(''message'', JStr ''Could not process Telegram response.'')]),
                                 [send, Console])
                            | Inr (Some fileData) \<Rightarrow>
                                (Inr (json_response 200
                                       [(''url'', JStr (origin request @ ''/api/cfile/''
                                                        @ uf_file_id fileData)),
                                        (''code'', JNum 200),
                                        (''name'', JStr (uf_file_name fileData))]),
                                 send # bookkeeping pathPrefix env w (uf_file_id fileData)
                                          referer clientIp))))))"

definition POST_upload :: "request \<Rightarrow> env \<Rightarrow> world \<Rightarrow> (js_error + response) \<times> effect list" where
  "POST_upload = upload_handler ''/cfile/''"

definition POST_cfile :: "request \<Rightarrow> env \<Rightarrow> world \<Rightarrow> (js_error + response) \<times> effect list" where
  "POST_cfile = upload_handler ''/api/cfile/''"

section \<open>Upload in the tgchannel route\<close>

text \<open>\<open>getFile\<close>: the body \<open>getFile_try\<close> given above, wrapped in its \<^verbatim>\<open>catch\<close> block.\<close>

definition getFile :: "tg_response \<Rightarrow> uploaded_file option \<times> effect list" where
  "getFile response =
     (case getFile_try response of
        Inl e \<Rightarrow> (None, [Console])
      | Inr v \<Rightarrow> (v, []))"

text \<open>
  \<^verbatim>\<open>getFile_path\<close> of the route: the string \<^verbatim>\<open>"error"\<close> stands for every failure, and
  nothing is written to the console.
\<close>

definition getFile_path_tgchannel :: "world \<Rightarrow> string \<Rightarrow> string option \<times> effect list" where
  "getFile_path_tgchannel w fid =
     (case getFile_reply w of
        Inl e \<Rightarrow> (Some ''error'', [TelegramGetFile fid])
      | Inr d \<Rightarrow>
          if gf_ok d then
            (case gf_result d of
               None \<Rightarrow> (Some ''error'', [TelegramGetFile fid])
             | Some p \<Rightarrow> (p, [TelegramGetFile fid]))
          else (Some ''error'', [TelegramGetFile fid]))"

text \<open>
  \<^verbatim>\<open>getRating\<close> of the route. The outcome of \<open>getFile_path\<close> is not inspected: it is put
  into the URL given to the rating service.
\<close>

definition ratingApi_tgchannel :: "env \<Rightarrow> string" where
  "ratingApi_tgchannel env =
     (let ModerateContentUrl =
            (if truthy (ModerateContentApiKey env)
             then ''https://api.moderatecontent.com/moderate/?key=''
                  @ template (ModerateContentApiKey env) @ ''&''
             else [])
      in if truthy (RATINGAPI env) then template (RATINGAPI env) @ ''?'' else ModerateContentUrl)"

definition getRating_tgchannel :: "env \<Rightarrow> world \<Rightarrow> string \<Rightarrow> int \<times> effect list" where
  "getRating_tgchannel env w url =
     (case getFile_path_tgchannel w url of
        (file_path, e1) \<Rightarrow>
          if ratingApi_tgchannel env \<noteq> [] then
            (case rating_reply w of
               Inl e \<Rightarrow> (- 1, e1 @ [RatingApiCall (template file_path)])
             | Inr None \<Rightarrow> (- 1, e1 @ [RatingApiCall (template file_path)])
             | Inr (Some rating_index) \<Rightarrow> (rating_index, e1 @ [RatingApiCall (template file_path)]))
          else (0, e1))"

text \<open>The insert of the route: the \<^verbatim>\<open>catch\<close> block is empty.\<close>

definition insertImageData_tgchannel ::
  "world \<Rightarrow> string \<Rightarrow> string \<Rightarrow> string \<Rightarrow> int \<Rightarrow> string \<Rightarrow> effect list" where
  "insertImageData_tgchannel w src referer ip rating time =
     [ImginfoInsert src referer ip rating time]"

text \<open>
  \<^verbatim>\<open>headers.get('x-forwarded-for') || headers.get('x-real-ip') || request.socket.remoteAddress\<close>:
  reading \<^verbatim>\<open>remoteAddress\<close> of a missing \<^verbatim>\<open>socket\<close> raises a TypeError.
\<close>

definition remote_ip_tgchannel :: "request \<Rightarrow> js_error + string option" where
  "remote_ip_tgchannel request =
     (if truthy (x_forwarded_for request) then Inr (x_forwarded_for request)
      else if truthy (x_real_ip request) then Inr (x_real_ip request)
      else case socket request of
        None \<Rightarrow> Inl TypeError
      | Some remoteAddress \<Rightarrow> Inr remoteAddress)"

text \<open>\<^verbatim>\<open>formData.get('file').type\<close>: a string has no such property.\<close>

fun type_of_field :: "form_value \<Rightarrow> string option" where
  "type_of_field (FormFile f) = Some (type f)"
| "type_of_field (FormString s) = None"

text \<open>
  The handler. Everything before the upload call is outside its \<^verbatim>\<open>try\<close>: an exception
  there leaves the handler (\<open>Inl\<close>). Five console lines precede the upload call. Inside
  the inner \<^verbatim>\<open>try\<close>, \<open>getRating\<close>, \<open>get_nowTime\<close> and \<open>insertImageData\<close> raise nothing, so its
  \<^verbatim>\<open>catch\<close> block has no counterpart.
\<close>

definition failed_500 :: "js_error \<Rightarrow> response" where
  "failed_500 e =
     json_response 500
       [(''status'', JNum 500), (''message'', JStr ('' '' @ message e)), (''success'', JBool False)]"

definition POST_tgchannel :: "request \<Rightarrow> env \<Rightarrow> world \<Rightarrow> (js_error + response) \<times> effect list" where
  "POST_tgchannel request env w =
     (case remote_ip_tgchannel request of
        Inl e \<Rightarrow> (Inl e, [])
      | Inr ip \<Rightarrow>
          (let clientIp = first_address ip;
               referer = or_else (Referer request) ''Referer''
           in case formData request of
             Inl e \<Rightarrow> (Inl e, [])
           | Inr form \<Rightarrow>
               (case map_of form ''file'' of
                  None \<Rightarrow> (Inl TypeError, [])
                | Some field \<Rightarrow>
                    (case selectFileType (type_of_field field) of
                       Inl e \<Rightarrow> (Inl e, [])
                     | Inr sel \<Rightarrow>
                         (let pre = [Console, Console, Console, Console, Console,
                                     TelegramSend (endpoint sel) (formFieldName sel)]
                          in case upload_reply w of
                            Inl e \<Rightarrow> (Inr (failed_500 e), pre @ [Console])
                          | Inr res_img \<Rightarrow>
                              (case json res_img of
                                 Inl e \<Rightarrow> (Inr (failed_500 e), pre @ [Console])
                               | Inr responseData \<Rightarrow>
                                   (case getFile responseData of
                                      (None, e1) \<Rightarrow>
                                        (Inr (json_response 500
                                               [(''status'', JNum 500),
                                                (''message'', JStr ''Failed to upload file to Telegram.''),
                                                (''success'', JBool False),
                                                (''telegram_response'', JResp responseData)]),
                                         pre @ e1 @ [Console])
                                    | (Some fileData, e1) \<Rightarrow>
                                        (let data =
                                               [(''url'', JStr (origin request @ ''/api/cfile/''
                                                                @ uf_file_id fileData)),
                                                (''code'', JNum 200),
                                                (''name'', JStr (uf_file_name fileData))]
                                         in if \<not> IMG env then
                                              (Inr (json_response 200
                                                     (data @ [(''env_img'', JStr ''null''),
                                                              (''msg'', JStr ''1'')])),
                                               pre @ e1)
                                            else
                                              (case getRating_tgchannel env w (uf_file_id fileData) of
                                                 (rating_index, e2) \<Rightarrow>
                                                   (let nowTime = now w in
                                                    (Inr (json_response 200
                                                           (data @ [(''msg'', JStr ''2''),
                                                                    (''Referer'', JStr referer),
                                                                    (''clientIp'', JStr clientIp),
                                                                    (''rating_index'', JNum rating_index),
                                                                    (''nowTime'', JStr nowTime)])),
                                                     pre @ e1 @ e2
                                                     @ insertImageData_tgchannel w
                                                         (''/cfile/'' @ uf_file_id fileData)
                                                         referer clientIp rating_index nowTime)))))))))))"

section \<open>Retrieval\<close>

text \<open>
  The store helpers of the newer retrieval handler. \<open>insertViewLog\<close> catches its failure
  and writes it to the console. \<open>getRatingFromDb\<close> gives the row's rating, \<^verbatim>\<open>null\<close> when no
  row matches or the statement fails; when a row was found it hands the counter update
  to \<^verbatim>\<open>ctx.waitUntil\<close>, and nothing looks at the outcome of that update.
\<close>

definition insertViewLog :: "world \<Rightarrow> string \<Rightarrow> string \<Rightarrow> string \<Rightarrow> string \<Rightarrow> effect list" where
  "insertViewLog w url referer ip time =
     (if log_insert_throws w then [LogInsert url referer ip time, Console]
      else [LogInsert url referer ip time])"

definition getRatingFromDb :: "world \<Rightarrow> string \<Rightarrow> int option \<times> effect list" where
  "getRatingFromDb w urlPath =
     (if select_throws w then (None, [ImginfoSelect urlPath, Console])
      else case imginfo w urlPath of
        None \<Rightarrow> (None, [ImginfoSelect urlPath])
      | Some rating \<Rightarrow> (Some rating, [ImginfoSelect urlPath, ImginfoIncrement urlPath]))"

definition GET_cfile ::
  "request \<Rightarrow> string \<Rightarrow> env \<Rightarrow> world \<Rightarrow> (js_error + response) \<times> effect list" where
  "GET_cfile request fid env w =
     (let clientIp = or_else (CF_Connecting_IP request) ''IP not found'';
          referer = or_else (Referer request) ''Referer not found''
      in case getFilePath w fid of
        (file_path, e1) \<Rightarrow>
          if \<not> truthy file_path then
            (Inr (json_response 502
                   [(''message'', JStr ''Failed to get the file path from the Telegram API.''),
                    (''success'', JBool False)]),
             e1)
          else
            (let fileName = last_segment (template file_path);
                 fetched = TelegramDownload (template file_path)
             in case download_reply w of
               Inl e \<Rightarrow>
                 (Inr (json_response 500
                        [(''message'', JStr (''Internal server error: '' @ message e)),
                         (''success'', JBool False)]),
                  e1 @ [fetched, Console])
             | Inr telegramResponse \<Rightarrow>
                 if \<not> dl_ok telegramResponse then
                   (Inr (json_response (dl_status telegramResponse)
                          [(''message'', JStr (''Failed to download the file from the Telegram API: ''
                                               @ dl_body telegramResponse)),
                           (''success'', JBool False)]),
                    e1 @ [fetched])
                 else
                   (let isAdminReferer =
                          (prefix (origin request @ ''/admin'') referer
                           \<or> prefix (origin request @ ''/list'') referer)
                    in if isAdminReferer \<or> \<not> IMG env then
                         (Inr (file_response (''inline; filename='' @ [CHR 0x22] @ fileName @ [CHR 0x22])
                                (dl_body telegramResponse)),
                          e1 @ [fetched])
                       else
                         (let nowTime = now w;
                              urlPath = ''/api/cfile/'' @ fid;
                              e2 = insertViewLog w urlPath referer clientIp nowTime
                          in case getRatingFromDb w urlPath of
                            (ratingInfo, e3) \<Rightarrow>
                              if ratingInfo = Some 3 then
                                (Inr (redirect (origin request @ ''/img/blocked.png'') 302),
                                 e1 @ [fetched] @ e2 @ e3)
                              else
                                (Inr (file_response (''inline; filename='' @ [CHR 0x22] @ fileName @ [CHR 0x22])
                                       (dl_body telegramResponse)),
                                 e1 @ [fetched] @ e2 @ e3)))))"

text \<open>
  The older retrieval handler. Its \<open>getFile_path\<close> gives the string \<^verbatim>\<open>"error"\<close> on every
  failure, and the handler compares the path with that string. Its trusted referers are
  three exact strings. The log insert is awaited and catches its failure; \<open>getRating\<close>
  reads the store, and the handler itself issues the counter update.
\<close>

definition getFile_path_legacy :: "world \<Rightarrow> string \<Rightarrow> string \<times> effect list" where
  "getFile_path_legacy w fid =
     (case getFile_reply w of
        Inl e \<Rightarrow> (''error'', [TelegramGetFile fid, Console])
      | Inr d \<Rightarrow>
          if gf_ok d then
            (case gf_result d of
               None \<Rightarrow> (''error'', [TelegramGetFile fid, Console])
             | Some p \<Rightarrow>
                 if truthy p then (template p, [TelegramGetFile fid])
                 else (''error'', [TelegramGetFile fid, Console]))
          else (''error'', [TelegramGetFile fid, Console]))"

definition insertTgImgLog :: "world \<Rightarrow> string \<Rightarrow> string \<Rightarrow> string \<Rightarrow> string \<Rightarrow> effect list" where
  "insertTgImgLog w url referer ip time =
     (if log_insert_throws w then [LogInsert url referer ip time, Console]
      else [LogInsert url referer ip time])"

definition getRating_legacy :: "world \<Rightarrow> string \<Rightarrow> int option \<times> effect list" where
  "getRating_legacy w url =
     (if select_throws w then (None, [ImginfoSelect url, Console])
      else (imginfo w url, [ImginfoSelect url]))"

definition remote_ip_legacy :: "request \<Rightarrow> string option" where
  "remote_ip_legacy request =
     (if truthy (x_forwarded_for request) then x_forwarded_for request
      else if truthy (x_real_ip request) then x_real_ip request
      else case socket request of
        None \<Rightarrow> None
      | Some remoteAddress \<Rightarrow> remoteAddress)"

definition GET_legacy ::
  "request \<Rightarrow> string \<Rightarrow> env \<Rightarrow> world \<Rightarrow> (js_error + response) \<times> effect list" where
  "GET_legacy request name' env w =
     (let clientIp = first_address (remote_ip_legacy request);
          referer = or_else (Referer request) ''Referer not found''
      in case getFile_path_legacy w name' of
        (file_path, e1) \<Rightarrow>
          if file_path = ''error'' then
            (Inr (json_response 500
                   [(''status'', JNum 500),
                    (''message'', JStr ''Failed to get file path from Telegram API.''),
                    (''success'', JBool False)]),
             e1)
          else
            (let fileName = last_segment file_path;
                 fetched = TelegramDownload file_path
             in case download_reply w of
               Inl e \<Rightarrow>
                 (Inr (json_response 500
                        [(''status'', JNum 500),
                         (''message'', JStr (''Internal server error: '' @ message e)),
                         (''success'', JBool False)]),
                  e1 @ [fetched])
             | Inr res \<Rightarrow>
                 if dl_ok res then
                   (if referer = origin request @ ''/admin''
                       \<or> referer = origin request @ ''/list''
                       \<or> referer = origin request @ ''/''
                       \<or> \<not> IMG env
                    then
                      (Inr (file_response (''attachment; filename='' @ fileName) (dl_body res)),
                       e1 @ [fetched])
                    else
                      (let nowTime = now w;
                           e2 = insertTgImgLog w (''/cfile/'' @ name') referer clientIp nowTime
                       in case getRating_legacy w (''/cfile/'' @ name') of
                         (None, e3) \<Rightarrow>
                           (Inr (json_response 404
                                  [(''status'', JNum 404),
                                   (''message'', JStr ''Rating information not found for this resource.''),
                                   (''success'', JBool False)]),
                            e1 @ [fetched] @ e2 @ e3)
                       | (Some rating, e3) \<Rightarrow>
                           if rating = 3 then
                             (Inr (redirect (origin request @ ''/img/blocked.png'') 302),
                              e1 @ [fetched] @ e2 @ e3 @ [ImginfoIncrement (''/cfile/'' @ name')])
                           else
                             (Inr (file_response (''attachment; filename='' @ fileName) (dl_body res)),
                              e1 @ [fetched] @ e2 @ e3 @ [ImginfoIncrement (''/cfile/'' @ name')])))
                 else
                   (Inr (json_response (dl_status res)
                          [(''status'', JNum (int (dl_status res))),
                           (''message'', JStr (''Failed to get the file from the Telegram API: ''
                                               @ dl_body res)),
                           (''success'', JBool False)]),
                    e1 @ [fetched])))"

section \<open>Observations on an outcome\<close>

text \<open>
  The status of a handler's answer (\<open>None\<close> when the handler raised instead), a field of
  its JSON body, and the file bytes it carries, if any.
\<close>

definition status_of :: "(js_error + response) \<times> effect list \<Rightarrow> nat option" where
  "status_of outcome = (case fst outcome of Inl e \<Rightarrow> None | Inr resp \<Rightarrow> Some (status resp))"

definition payload :: "(js_error + response) \<times> effect list \<Rightarrow> string \<Rightarrow> jval option" where
  "payload outcome k =
     (case fst outcome of
        Inl e \<Rightarrow> None
      | Inr resp \<Rightarrow> (case body resp of Json kvs \<Rightarrow> map_of kvs k | Bytes b \<Rightarrow> None | NoBody \<Rightarrow> None))"

definition served_bytes :: "(js_error + response) \<times> effect list \<Rightarrow> string option" where
  "served_bytes outcome =
     (case fst outcome of
        Inl e \<Rightarrow> None
      | Inr resp \<Rightarrow> (case body resp of Bytes b \<Rightarrow> Some b | Json kvs \<Rightarrow> None | NoBody \<Rightarrow> None))"

text \<open>
  The referer as both retrieval handlers read it, and their two tests for a trusted one:
  the newer handler accepts every referer that starts with the origin followed by
  \<^verbatim>\<open>/admin\<close> or \<^verbatim>\<open>/list\<close>, the older one the three strings origin plus \<^verbatim>\<open>/admin\<close>,
  \<^verbatim>\<open>/list\<close> or \<^verbatim>\<open>/\<close>.
\<close>

definition referer_of :: "request \<Rightarrow> string" where
  "referer_of request = or_else (Referer request) ''Referer not found''"

definition trusted_cfile :: "request \<Rightarrow> bool" where
  "trusted_cfile request =
     (prefix (origin request @ ''/admin'') (referer_of request)
      \<or> prefix (origin request @ ''/list'') (referer_of request))"

definition trusted_legacy :: "request \<Rightarrow> bool" where
  "trusted_legacy request =
     (referer_of request = origin request @ ''/admin''
      \<or> referer_of request = origin request @ ''/list''
      \<or> referer_of request = origin request @ ''/'')"

text \<open>A world whose upload answer has the \<^verbatim>\<open>result\<close> of its body replaced.\<close>

definition with_result :: "world \<Rightarrow> send_response \<Rightarrow> tg_response \<Rightarrow> tg_result option \<Rightarrow> world" where
  "with_result w tr r res' = w\<lparr>upload_reply := Inr (tr\<lparr>json := Inr (r\<lparr>result := res'\<rparr>)\<rparr>)\<rparr>"

section \<open>Sample data\<close>

text \<open>
  Concrete backend answers, requests and worlds at which the statements below are
  evaluated. \<open>three_sizes\<close> is the scenario of three photo sizes of 1000, 5000 and 3000
  bytes; \<open>tied_sizes\<close> has two entries of the same size.
\<close>

definition photo_size :: "string \<Rightarrow> string \<Rightarrow> int \<Rightarrow> tg_file" where
  "photo_size fid uid n = \<lparr>file_id = fid, file_unique_id = uid, file_name = None, file_size = Some n\<rparr>"

definition photo_response :: "tg_file list \<Rightarrow> tg_response" where
  "photo_response sizes =
     \<lparr>ok = True,
      result = Some \<lparr>photo = Some sizes, video = None, document = None, audio = None\<rparr>\<rparr>"

definition three_sizes :: "tg_file list" where
  "three_sizes =
     [photo_size ''id-1000'' ''uid-1000'' 1000,
      photo_size ''id-5000'' ''uid-5000'' 5000,
      photo_size ''id-3000'' ''uid-3000'' 3000]"

definition tied_sizes :: "tg_file list" where
  "tied_sizes = [photo_size ''first'' ''uid-first'' 2000, photo_size ''second'' ''uid-second'' 2000]"

text \<open>
  An upload of a JPEG from a page of another site, an environment with the store and a
  moderation key, and a world in which every call succeeds.
\<close>

definition sample_request :: request where
  "sample_request =
     \<lparr>origin = ''https://img.example'',
      Referer = Some ''https://blog.example/post'',
      CF_Connecting_IP = Some ''203.0.113.7'',
      x_forwarded_for = Some ''203.0.113.7, 10.0.0.1'',
      x_real_ip = None,
      socket = None,
      formData = Inr [(''file'', FormFile \<lparr>name = ''cat.jpg'', type = ''image/jpeg''\<rparr>)]\<rparr>"

definition sample_env :: env where
  "sample_env =
     \<lparr>TG_BOT_TOKEN = ''123:abc'', TG_CHAT_ID = ''-100'', IMG = True,
      RATINGAPI = None, ModerateContentApiKey = Some ''key''\<rparr>"

definition sample_download :: download where
  "sample_download = \<lparr>dl_ok = True, dl_status = 200, dl_body = ''JPEGDATA''\<rparr>"

definition sample_world :: world where
  "sample_world =
     \<lparr>getFile_reply = Inr \<lparr>gf_ok = True, gf_result = Some (Some ''photos/file_7.jpg'')\<rparr>,
      upload_reply = Inr \<lparr>http_ok = True, json = Inr (photo_response three_sizes)\<rparr>,
      download_reply = Inr sample_download,
      rating_reply = Inr (Some 1),
      imginfo = Map.empty,
      select_throws = False,
      insert_throws = False,
      log_insert_throws = False,
      increment_throws = False,
      now = ''2026-01-01 08:00:00''\<rparr>"

text \<open>
  An audio upload and the backend's answer to it; a form without a \<^verbatim>\<open>file\<close> field and
  one whose \<^verbatim>\<open>file\<close> field is a string; an upload that the backend rejects.
\<close>

definition audio_response :: tg_response where
  "audio_response =
     \<lparr>ok = True,
      result = Some \<lparr>photo = None, video = None, document = None,
                     audio = Some \<lparr>file_id = ''aud-1'', file_unique_id = ''uid-aud-1'',
                                   file_name = Some ''song.mp3'', file_size = Some 4000\<rparr>\<rparr>\<rparr>"

definition audio_request :: request where
  "audio_request =
     sample_request\<lparr>formData := Inr [(''file'', FormFile \<lparr>name = ''song.mp3'', type = ''audio/mpeg''\<rparr>)]\<rparr>"

definition audio_world :: world where
  "audio_world = sample_world\<lparr>upload_reply := Inr \<lparr>http_ok = True, json = Inr audio_response\<rparr>\<rparr>"

definition no_file_request :: request where
  "no_file_request = sample_request\<lparr>formData := Inr [(''comment'', FormString ''hello'')]\<rparr>"

definition text_file_request :: request where
  "text_file_request = sample_request\<lparr>formData := Inr [(''file'', FormString ''hello'')]\<rparr>"

definition not_ok_response :: tg_response where
  "not_ok_response = \<lparr>ok = False, result = None\<rparr>"

definition rejected_world :: world where
  "rejected_world =
     sample_world\<lparr>upload_reply := Inr \<lparr>http_ok = False, json = Inr not_ok_response\<rparr>\<rparr>"

text \<open>
  An environment without rating service, and worlds in which the path resolution, the
  rating service, or all of the bookkeeping fails.
\<close>

definition no_rating_env :: env where
  "no_rating_env = sample_env\<lparr>RATINGAPI := None, ModerateContentApiKey := None\<rparr>"

definition unresolved_world :: world where
  "unresolved_world = sample_world\<lparr>getFile_reply := Inr \<lparr>gf_ok = False, gf_result = None\<rparr>\<rparr>"

definition rating_down_world :: world where
  "rating_down_world = sample_world\<lparr>rating_reply := Inl FetchError\<rparr>"

definition bookkeeping_down_world :: world where
  "bookkeeping_down_world =
     sample_world\<lparr>getFile_reply := Inl FetchError, rating_reply := Inl FetchError,
                  insert_throws := True\<rparr>"

text \<open>
  A request from the admin page, and worlds in which the download fails, the store holds
  rating 3 for the sample file, and then also the path resolution or the lookup fails.
\<close>

definition admin_request :: request where
  "admin_request = sample_request\<lparr>Referer := Some ''https://img.example/admin''\<rparr>"

definition download_failed_world :: world where
  "download_failed_world =
     sample_world\<lparr>download_reply := Inr \<lparr>dl_ok = False, dl_status = 404, dl_body = ''Not Found''\<rparr>\<rparr>"

definition blocked_world :: world where
  "blocked_world =
     sample_world\<lparr>imginfo := [''/api/cfile/id-5000'' \<mapsto> 3, ''/cfile/id-5000'' \<mapsto> 3]\<rparr>"

definition blocked_unresolved_world :: world where
  "blocked_unresolved_world =
     blocked_world\<lparr>getFile_reply := Inr \<lparr>gf_ok = False, gf_result = None\<rparr>\<rparr>"

definition blocked_select_fails_world :: world where
  "blocked_select_fails_world = blocked_world\<lparr>select_throws := True\<rparr>"

section \<open>Endpoint selection is the ordered prefix rule\<close>

lemma selectFileType_eq:
  "selectFileType (Some t) = Inr (getTelegramEndpoint t)"
  by (simp add: selectFileType_def getTelegramEndpoint_def fileTypeMap_def defaultType_def)

text \<open>
  C7. For every MIME type string the endpoint is given by the ordered prefix rule:
  \<^verbatim>\<open>image/\<close> gives sendPhoto, otherwise \<^verbatim>\<open>video/\<close> gives sendVideo, otherwise \<^verbatim>\<open>audio/\<close>
  gives sendAudio, and every other string (the empty one too) gives sendDocument. The
  helper \<open>getTelegramEndpoint\<close> and the table lookup of the tgchannel route compute the
  same endpoint, and the lookup raises nothing on a string.
\<close>

theorem C7_endpoint_prefix_rule:
  "endpoint (getTelegramEndpoint t) =
     (if prefix ''image/'' t then ''sendPhoto''
      else if prefix ''video/'' t then ''sendVideo''
      else if prefix ''audio/'' t then ''sendAudio''
      else ''sendDocument'')
   \<and> selectFileType (Some t) = Inr (getTelegramEndpoint t)"
  by (simp add: selectFileType_def getTelegramEndpoint_def fileTypeMap_def defaultType_def)

section \<open>The largest photo size\<close>

lemma foldl_larger_snoc: "foldl larger x (xs @ [y]) = larger (foldl larger x xs) y"
  by simp

lemma js_gt_defined:
  "file_size p \<noteq> None \<Longrightarrow> file_size q \<noteq> None \<Longrightarrow>
   js_gt (file_size p) (file_size q) = (the (file_size p) > the (file_size q))"
  by (cases "file_size p"; cases "file_size q") auto

lemma foldl_larger_split:
  "\<forall>q\<in>set (x # xs). file_size q \<noteq> None \<Longrightarrow>
   \<exists>pre suf. x # xs = pre @ foldl larger x xs # suf
     \<and> (\<forall>q\<in>set pre. \<not> js_gt (file_size q) (file_size (foldl larger x xs)))
     \<and> (\<forall>q\<in>set suf. js_gt (file_size (foldl larger x xs)) (file_size q))"
proof (induction xs rule: rev_induct)
  case Nil
  have "[x] = [] @ x # []" by simp
  then show ?case by force
next
  case (snoc y ys)
  let ?m = "foldl larger x ys"
  from snoc.prems have defd: "\<forall>q\<in>set (x # ys). file_size q \<noteq> None" and dy: "file_size y \<noteq> None"
    by auto
  from snoc.IH [OF defd] obtain pre suf where
    split: "x # ys = pre @ ?m # suf"
    and le: "\<forall>q\<in>set pre. \<not> js_gt (file_size q) (file_size ?m)"
    and gt: "\<forall>q\<in>set suf. js_gt (file_size ?m) (file_size q)"
    by blast
  have m_in: "?m \<in> set (x # ys)" by (subst split) simp
  with defd have dm: "file_size ?m \<noteq> None" by blast
  have dpre: "\<forall>q\<in>set pre. file_size q \<noteq> None"
    using defd split by (metis Un_iff set_append)
  have dsuf: "\<forall>q\<in>set suf. file_size q \<noteq> None"
    using defd split by (metis Un_iff list.set_intros(2) set_append)
  show ?case
  proof (cases "js_gt (file_size ?m) (file_size y)")
    case True
    then have res: "foldl larger x (ys @ [y]) = ?m" by (simp add: larger_def)
    have "x # (ys @ [y]) = pre @ ?m # (suf @ [y])" using split by simp
    moreover have "\<forall>q\<in>set (suf @ [y]). js_gt (file_size ?m) (file_size q)"
      using gt True by auto
    ultimately show ?thesis unfolding res using le by blast
  next
    case False
    then have res: "foldl larger x (ys @ [y]) = y" by (simp add: larger_def)
    have my: "the (file_size ?m) \<le> the (file_size y)"
      using False js_gt_defined [OF dm dy] by simp
    have "x # (ys @ [y]) = (pre @ ?m # suf) @ y # []" using split by simp
    moreover have "\<forall>q\<in>set (pre @ ?m # suf). \<not> js_gt (file_size q) (file_size y)"
    proof
      fix q assume q: "q \<in> set (pre @ ?m # suf)"
      then have dq: "file_size q \<noteq> None" using dpre dsuf dm by auto
      have "the (file_size q) \<le> the (file_size ?m)"
        using q le gt dpre dsuf dm js_gt_defined by (auto simp: js_gt_defined)
      with my show "\<not> js_gt (file_size q) (file_size y)"
        using js_gt_defined [OF dq dy] by simp
    qed
    ultimately show ?thesis unfolding res by (metis empty_iff list.set(1))
  qed
qed

lemma reduce_larger_split:
  assumes "sizes \<noteq> []" and "\<forall>q\<in>set sizes. file_size q \<noteq> None"
  shows "\<exists>pre p suf. sizes = pre @ p # suf \<and> reduce larger sizes = Inr p
     \<and> (\<forall>q\<in>set pre. \<not> js_gt (file_size q) (file_size p))
     \<and> (\<forall>q\<in>set suf. js_gt (file_size p) (file_size q))"
proof -
  from assms(1) obtain x xs where sz: "sizes = x # xs" by (cases sizes) auto
  from foldl_larger_split [of x xs] assms(2) sz
  obtain pre suf where a: "x # xs = pre @ foldl larger x xs # suf"
    and b: "\<forall>q\<in>set pre. \<not> js_gt (file_size q) (file_size (foldl larger x xs))"
    and c: "\<forall>q\<in>set suf. js_gt (file_size (foldl larger x xs)) (file_size q)"
    by blast
  have d: "sizes = pre @ foldl larger x xs # suf" using a sz by simp
  have e: "reduce larger sizes = Inr (foldl larger x xs)" by (simp add: sz)
  from d e b c show ?thesis by blast
qed

text \<open>
  C2 (as amended). For a successful photo answer whose size list is not empty and whose
  entries all carry a \<open>file_size\<close>, the entry \<open>p\<close> chosen by both extraction helpers has
  the largest \<open>file_size\<close>: no entry before it is strictly larger, and every entry after
  it is strictly smaller. So among entries of the same largest size the last one wins:
  the callback keeps the accumulated entry only when it is strictly larger than the
  current one. The helper of the two deferred variants names the file by the
  \<open>file_unique_id\<close> of \<open>p\<close>; the helper of the tgchannel route by its \<open>file_name\<close> when it
  has a non-empty one and by its \<open>file_unique_id\<close> otherwise.
\<close>

theorem C2_largest_photo_last_on_tie:
  assumes "ok r" and "result r = Some res" and "photo res = Some sizes"
    and "sizes \<noteq> []" and "\<forall>q\<in>set sizes. file_size q \<noteq> None"
  shows "\<exists>pre p suf. sizes = pre @ p # suf
     \<and> (\<forall>q\<in>set pre. \<not> js_gt (file_size q) (file_size p))
     \<and> (\<forall>q\<in>set suf. js_gt (file_size p) (file_size q))
     \<and> extractFileData r = Inr (Some \<lparr>uf_file_id = file_id p, uf_file_name = file_unique_id p\<rparr>)
     \<and> getFile r = (Some \<lparr>uf_file_id = file_id p,
                           uf_file_name = or_else (file_name p) (file_unique_id p)\<rparr>, [])"
proof -
  from reduce_larger_split [OF assms(4,5)] obtain pre p suf where
    s: "sizes = pre @ p # suf" and red: "reduce larger sizes = Inr p"
    and le: "\<forall>q\<in>set pre. \<not> js_gt (file_size q) (file_size p)"
    and gt: "\<forall>q\<in>set suf. js_gt (file_size p) (file_size q)"
    by blast
  have e: "extractFileData r = Inr (Some \<lparr>uf_file_id = file_id p, uf_file_name = file_unique_id p\<rparr>)"
    using assms(1-3) red by (simp add: extractFileData_def)
  have g: "getFile r = (Some \<lparr>uf_file_id = file_id p,
                           uf_file_name = or_else (file_name p) (file_unique_id p)\<rparr>, [])"
    using assms(1-3) red by (simp add: getFile_def getFile_try_def getFileDetails_def)
  from s le gt e g show ?thesis by blast
qed

lemma three_sizes_eval:
  "extractFileData (photo_response three_sizes)
     = Inr (Some \<lparr>uf_file_id = ''id-5000'', uf_file_name = ''uid-5000''\<rparr>)"
  by (simp add: extractFileData_def photo_response_def three_sizes_def photo_size_def larger_def)

text \<open>
  C2 at the scenario of three sizes of 1000, 5000 and 3000 bytes, where the 5000-byte
  entry is chosen.
\<close>

theorem C2_witness:
  "ok (photo_response three_sizes)
   \<and> result (photo_response three_sizes)
       = Some \<lparr>photo = Some three_sizes, video = None, document = None, audio = None\<rparr>
   \<and> three_sizes \<noteq> []
   \<and> extractFileData (photo_response three_sizes)
       = Inr (Some \<lparr>uf_file_id = ''id-5000'', uf_file_name = ''uid-5000''\<rparr>)
   \<and> (\<exists>pre p suf. three_sizes = pre @ p # suf
     \<and> (\<forall>q\<in>set pre. \<not> js_gt (file_size q) (file_size p))
     \<and> (\<forall>q\<in>set suf. js_gt (file_size p) (file_size q))
     \<and> extractFileData (photo_response three_sizes)
         = Inr (Some \<lparr>uf_file_id = file_id p, uf_file_name = file_unique_id p\<rparr>)
     \<and> getFile (photo_response three_sizes)
         = (Some \<lparr>uf_file_id = file_id p,
                   uf_file_name = or_else (file_name p) (file_unique_id p)\<rparr>, []))"
proof -
  have h1: "ok (photo_response three_sizes)" by (simp add: photo_response_def)
  have h2: "result (photo_response three_sizes)
       = Some \<lparr>photo = Some three_sizes, video = None, document = None, audio = None\<rparr>"
    by (simp add: photo_response_def)
  have h3: "photo \<lparr>photo = Some three_sizes, video = None, document = None, audio = None\<rparr>
       = Some three_sizes" by simp
  have h4: "three_sizes \<noteq> []" by (simp add: three_sizes_def)
  have h5: "\<forall>q\<in>set three_sizes. file_size q \<noteq> None"
    by (simp add: three_sizes_def photo_size_def)
  from C2_largest_photo_last_on_tie [OF h1 h2 h3 h4 h5] h1 h2 h4 three_sizes_eval
  show ?thesis by blast
qed

text \<open>
  C2 as stated fails on a tie: of two entries of 2000 bytes the second one is returned,
  not the first.
\<close>

theorem C2_first_seen_counterexample:
  "file_size (hd tied_sizes) = file_size (last tied_sizes)
   \<and> extractFileData (photo_response tied_sizes)
       = Inr (Some \<lparr>uf_file_id = ''second'', uf_file_name = ''uid-second''\<rparr>)
   \<and> extractFileData (photo_response tied_sizes)
       \<noteq> Inr (Some \<lparr>uf_file_id = ''first'', uf_file_name = ''uid-first''\<rparr>)
   \<and> fst (getFile (photo_response tied_sizes))
       = Some \<lparr>uf_file_id = ''second'', uf_file_name = ''uid-second''\<rparr>"
  by (simp add: extractFileData_def getFile_def getFile_try_def getFileDetails_def
      photo_response_def tied_sizes_def photo_size_def larger_def)

section \<open>The tgchannel route on an audio answer\<close>

text \<open>
  C10. In the tgchannel route, take a request that reaches the upload call (a client
  address is available and the form holds a file) and a backend answer that is ok and
  whose result holds an audio object and no photo, video or document. Then \<open>getFile\<close>
  gives \<^verbatim>\<open>null\<close> and the handler answers with status 500. When the file's type starts
  with \<^verbatim>\<open>audio/\<close>, the upload went to \<^verbatim>\<open>sendAudio\<close>.
\<close>

theorem C10_audio_only_rejected:
  assumes "remote_ip_tgchannel request = Inr ip"
    and "formData request = Inr form"
    and "map_of form ''file'' = Some (FormFile f)"
    and "upload_reply w = Inr res_img"
    and "json res_img = Inr r"
    and "ok r" and "result r = Some res"
    and "photo res = None" and "video res = None" and "document res = None"
    and "audio res = Some a"
  shows "getFile r = (None, [])
     \<and> status_of (POST_tgchannel request env w) = Some 500
     \<and> (prefix ''audio/'' (type f) \<longrightarrow>
          TelegramSend ''sendAudio'' ''audio'' \<in> set (snd (POST_tgchannel request env w)))"
proof -
  have g: "getFile r = (None, [])"
    using assms(6-10) by (simp add: getFile_def getFile_try_def)
  have p: "POST_tgchannel request env w =
      (Inr (json_response 500
             [(''status'', JNum 500),
              (''message'', JStr ''Failed to upload file to Telegram.''),
              (''success'', JBool False),
              (''telegram_response'', JResp r)]),
       [Console, Console, Console, Console, Console,
        TelegramSend (endpoint (getTelegramEndpoint (type f)))
          (formFieldName (getTelegramEndpoint (type f))), Console])"
    using assms(1-5) g by (simp add: POST_tgchannel_def selectFileType_eq Let_def)
  have s: "status_of (POST_tgchannel request env w) = Some 500"
    by (simp add: p status_of_def json_response_def)
  have a: "prefix ''audio/'' (type f) \<longrightarrow>
          TelegramSend ''sendAudio'' ''audio'' \<in> set (snd (POST_tgchannel request env w))"
    by (simp add: p getTelegramEndpoint_def) (auto simp: prefix_def)
  from g s a show ?thesis by blast
qed

text \<open>C10 at an upload of \<^verbatim>\<open>song.mp3\<close>.\<close>

theorem C10_witness:
  "remote_ip_tgchannel audio_request = Inr (Some ''203.0.113.7, 10.0.0.1'')
   \<and> upload_reply audio_world = Inr \<lparr>http_ok = True, json = Inr audio_response\<rparr>
   \<and> ok audio_response
   \<and> getFile audio_response = (None, [])
   \<and> status_of (POST_tgchannel audio_request sample_env audio_world) = Some 500
   \<and> TelegramSend ''sendAudio'' ''audio'' \<in> set (snd (POST_tgchannel audio_request sample_env audio_world))"
proof -
  have h1: "remote_ip_tgchannel audio_request = Inr (Some ''203.0.113.7, 10.0.0.1'')"
    by (simp add: remote_ip_tgchannel_def audio_request_def sample_request_def)
  have h2: "formData audio_request = Inr [(''file'', FormFile \<lparr>name = ''song.mp3'', type = ''audio/mpeg''\<rparr>)]"
    by (simp add: audio_request_def sample_request_def)
  have h3: "map_of [(''file'', FormFile \<lparr>name = ''song.mp3'', type = ''audio/mpeg''\<rparr>)] ''file''
      = Some (FormFile \<lparr>name = ''song.mp3'', type = ''audio/mpeg''\<rparr>)" by simp
  have h4: "upload_reply audio_world = Inr \<lparr>http_ok = True, json = Inr audio_response\<rparr>"
    by (simp add: audio_world_def sample_world_def)
  have h5: "json \<lparr>http_ok = True, json = Inr audio_response\<rparr> = Inr audio_response" by simp
  have h6: "ok audio_response" by (simp add: audio_response_def)
  have h7: "result audio_response = Some \<lparr>photo = None, video = None, document = None,
                     audio = Some \<lparr>file_id = ''aud-1'', file_unique_id = ''uid-aud-1'',
                                   file_name = Some ''song.mp3'', file_size = Some 4000\<rparr>\<rparr>"
    by (simp add: audio_response_def)
  have p: "prefix ''audio/'' (type \<lparr>name = ''song.mp3'', type = ''audio/mpeg''\<rparr>)" by simp
  from C10_audio_only_rejected [OF h1 h2 h3 h4 h5 h6 h7, of _ sample_env] h1 h4 h6 p
  show ?thesis by simp
qed

section \<open>Uploads without a file\<close>

text \<open>
  C4, at two concrete requests: one whose form has no \<^verbatim>\<open>file\<close> field and one whose
  \<^verbatim>\<open>file\<close> field is a string. The tgchannel route reads \<^verbatim>\<open>.type\<close> of the missing field,
  or calls \<^verbatim>\<open>startsWith\<close> on the missing type, outside any \<^verbatim>\<open>try\<close>: the handler raises a
  TypeError and produces no response of its own, where the claim asks for a 4xx answer.
  No call is made. The two other upload handlers answer 400.
\<close>

theorem C4_tgchannel_missing_file:
  "POST_tgchannel no_file_request sample_env sample_world = (Inl TypeError, [])
   \<and> POST_tgchannel text_file_request sample_env sample_world = (Inl TypeError, [])
   \<and> POST_upload no_file_request sample_env sample_world
       = (Inr (json_response 400 [(''message'', JStr ''File not provided or is invalid.'')]), [])
   \<and> POST_cfile no_file_request sample_env sample_world
       = (Inr (json_response 400 [(''message'', JStr ''File not provided or is invalid.'')]), [])
   \<and> POST_upload text_file_request sample_env sample_world
       = (Inr (json_response 400 [(''message'', JStr ''File not provided or is invalid.'')]), [])
   \<and> POST_cfile text_file_request sample_env sample_world
       = (Inr (json_response 400 [(''message'', JStr ''File not provided or is invalid.'')]), [])"
  by (simp add: POST_tgchannel_def POST_upload_def POST_cfile_def upload_handler_def
      no_file_request_def text_file_request_def sample_request_def remote_ip_tgchannel_def
      selectFileType_def)

text \<open>
  The same for every request whose form was parsed: without a file in the \<^verbatim>\<open>file\<close>
  field the two deferred variants answer 400 and the tgchannel route raises, and none of
  them issues any call.
\<close>

lemma upload_handler_rejects_missing_file:
  assumes "formData request = Inr form"
    and "map_of form ''file'' = None \<or> (\<exists>s. map_of form ''file'' = Some (FormString s))"
  shows "upload_handler pathPrefix request env w
     = (Inr (json_response 400 [(''message'', JStr ''File not provided or is invalid.'')]), [])"
  using assms by (auto simp: upload_handler_def)

lemma tgchannel_no_call_without_file:
  assumes "formData request = Inr form"
    and "map_of form ''file'' = None \<or> (\<exists>s. map_of form ''file'' = Some (FormString s))"
  shows "\<exists>e. POST_tgchannel request env w = (Inl e, [])"
  using assms by (auto simp: POST_tgchannel_def selectFileType_def split: sum.splits)

section \<open>Evaluation at the sample data\<close>


lemmas sample_defs =
  sample_request_def sample_env_def sample_world_def photo_response_def three_sizes_def
  photo_size_def

lemmas tgchannel_defs =
  POST_tgchannel_def remote_ip_tgchannel_def selectFileType_eq getFile_def getFile_try_def
  getFileDetails_def larger_def getRating_tgchannel_def getFile_path_tgchannel_def
  ratingApi_tgchannel_def insertImageData_tgchannel_def first_address_def trim_def
  is_space_def json_response_def failed_500_def status_of_def payload_def Let_def

lemmas upload_defs =
  POST_upload_def POST_cfile_def upload_handler_def getTelegramEndpoint_def extractFileData_def
  larger_def bookkeeping_def getRating_def getFilePath_def ratingApiBase_def
  insertImageData_def json_response_def unexpected_error_def status_of_def payload_def Let_def

section \<open>Backend answers that are not ok\<close>


lemma upload_handler_not_ok:
  assumes "upload_reply w = Inr tr" and "json tr = Inr r" and "\<not> ok r"
  shows "status_of (upload_handler pathPrefix request env w) \<noteq> Some 200"
  using assms
  by (simp add: upload_handler_def status_of_def json_response_def unexpected_error_def Let_def
      split: sum.splits option.splits form_value.splits)

lemma getFile_not_ok: "\<not> ok r \<Longrightarrow> getFile r = (None, [])"
  by (simp add: getFile_def getFile_try_def)

lemma extractFileData_not_ok: "\<not> ok r \<Longrightarrow> extractFileData r = Inr None"
  by (simp add: extractFileData_def)

lemma tgchannel_not_ok:
  assumes "upload_reply w = Inr tr" and "json tr = Inr r" and "\<not> ok r"
  shows "status_of (POST_tgchannel request env w) \<noteq> Some 200"
  using assms getFile_not_ok [of r]
  by (simp add: POST_tgchannel_def status_of_def json_response_def Let_def
      split: sum.splits option.splits)

lemma upload_handler_result_irrelevant:
  assumes "upload_reply w = Inr tr" and "json tr = Inr r" and "\<not> ok r"
  shows "status_of (upload_handler pathPrefix request env
                     (w\<lparr>upload_reply := Inr (tr\<lparr>json := Inr (r\<lparr>result := res'\<rparr>)\<rparr>)\<rparr>))
           = status_of (upload_handler pathPrefix request env w)
       \<and> snd (upload_handler pathPrefix request env
                     (w\<lparr>upload_reply := Inr (tr\<lparr>json := Inr (r\<lparr>result := res'\<rparr>)\<rparr>)\<rparr>))
           = snd (upload_handler pathPrefix request env w)"
  using assms
  by (simp add: upload_handler_def status_of_def json_response_def unexpected_error_def Let_def
      split: sum.splits option.splits form_value.splits)

lemma tgchannel_result_irrelevant:
  assumes "upload_reply w = Inr tr" and "json tr = Inr r" and "\<not> ok r"
  shows "status_of (POST_tgchannel request env
                     (w\<lparr>upload_reply := Inr (tr\<lparr>json := Inr (r\<lparr>result := res'\<rparr>)\<rparr>)\<rparr>))
           = status_of (POST_tgchannel request env w)
       \<and> snd (POST_tgchannel request env
                     (w\<lparr>upload_reply := Inr (tr\<lparr>json := Inr (r\<lparr>result := res'\<rparr>)\<rparr>)\<rparr>))
           = snd (POST_tgchannel request env w)"
  using assms getFile_not_ok [of r] getFile_not_ok [of "r\<lparr>result := res'\<rparr>"]
  by (simp add: POST_tgchannel_def status_of_def json_response_def Let_def
      split: sum.splits option.splits)

text \<open>
  C5. When the body of the backend's upload answer carries \<^verbatim>\<open>ok: false\<close>, none of the
  three upload handlers answers with status 200, and no file identity is extracted: both
  extraction helpers give \<^verbatim>\<open>null\<close> at their first check, and the status and the effects
  of each handler stay the same whatever the \<^verbatim>\<open>result\<close> of that answer holds. In the two
  deferred variants the handler answers before it calls the helper; in the tgchannel
  route the helper is entered and returns at its \<^verbatim>\<open>ok\<close> check.
\<close>


theorem C5_backend_not_ok:
  assumes "upload_reply w = Inr tr" and "json tr = Inr r" and "\<not> ok r"
  shows "status_of (POST_upload request env w) \<noteq> Some 200
     \<and> status_of (POST_cfile request env w) \<noteq> Some 200
     \<and> status_of (POST_tgchannel request env w) \<noteq> Some 200
     \<and> extractFileData r = Inr None
     \<and> getFile r = (None, [])
     \<and> status_of (POST_upload request env (with_result w tr r res'))
           = status_of (POST_upload request env w)
     \<and> snd (POST_upload request env (with_result w tr r res'))
           = snd (POST_upload request env w)
     \<and> status_of (POST_cfile request env (with_result w tr r res'))
           = status_of (POST_cfile request env w)
     \<and> snd (POST_cfile request env (with_result w tr r res'))
           = snd (POST_cfile request env w)
     \<and> status_of (POST_tgchannel request env (with_result w tr r res'))
           = status_of (POST_tgchannel request env w)
     \<and> snd (POST_tgchannel request env (with_result w tr r res'))
           = snd (POST_tgchannel request env w)"
  unfolding POST_upload_def POST_cfile_def with_result_def
  using upload_handler_not_ok [OF assms] tgchannel_not_ok [OF assms]
    extractFileData_not_ok [OF assms(3)] getFile_not_ok [OF assms(3)]
    upload_handler_result_irrelevant [OF assms] tgchannel_result_irrelevant [OF assms]
  by blast

text \<open>
  C5 at a rejected upload: the deferred variants answer 502, the tgchannel route 500.
\<close>


theorem C5_witness:
  "upload_reply rejected_world = Inr \<lparr>http_ok = False, json = Inr not_ok_response\<rparr>
   \<and> \<not> ok not_ok_response
   \<and> status_of (POST_upload sample_request sample_env rejected_world) \<noteq> Some 200
   \<and> status_of (POST_cfile sample_request sample_env rejected_world) \<noteq> Some 200
   \<and> status_of (POST_tgchannel sample_request sample_env rejected_world) \<noteq> Some 200
   \<and> extractFileData not_ok_response = Inr None
   \<and> getFile not_ok_response = (None, [])
   \<and> status_of (POST_upload sample_request sample_env rejected_world) = Some 502
   \<and> status_of (POST_tgchannel sample_request sample_env rejected_world) = Some 500"
proof -
  have h1: "upload_reply rejected_world = Inr \<lparr>http_ok = False, json = Inr not_ok_response\<rparr>"
    by (simp add: rejected_world_def)
  have h2: "json \<lparr>http_ok = False, json = Inr not_ok_response\<rparr> = Inr not_ok_response"
    by simp
  have h3: "\<not> ok not_ok_response" by (simp add: not_ok_response_def)
  note t = C5_backend_not_ok [OF h1 h2 h3, of sample_request sample_env None]
  have c1: "status_of (POST_upload sample_request sample_env rejected_world) \<noteq> Some 200"
    using t by simp
  have c2: "status_of (POST_cfile sample_request sample_env rejected_world) \<noteq> Some 200"
    using t by simp
  have c3: "status_of (POST_tgchannel sample_request sample_env rejected_world) \<noteq> Some 200"
    using t by simp
  have c4: "extractFileData not_ok_response = Inr None" using t by simp
  have c5: "getFile not_ok_response = (None, [])" using t by simp
  have c6: "status_of (POST_upload sample_request sample_env rejected_world) = Some 502"
    by (simp add: upload_defs sample_request_def rejected_world_def not_ok_response_def)
  have c7: "status_of (POST_tgchannel sample_request sample_env rejected_world) = Some 500"
    by (simp add: tgchannel_defs sample_request_def rejected_world_def not_ok_response_def)
  from h1 h3 c1 c2 c3 c4 c5 c6 c7 show ?thesis by (intro conjI)
qed

section \<open>The rating computed at upload\<close>


lemma getFilePath_failure:
  "getFile_reply w = Inl e \<Longrightarrow> fst (getFilePath w fid) = None"
  "getFile_reply w = Inr d \<Longrightarrow> \<not> gf_ok d \<Longrightarrow> fst (getFilePath w fid) = None"
  by (simp_all add: getFilePath_def)

lemma ratingApiBase_truthy:
  "truthy (ratingApiBase env) = (truthy (RATINGAPI env) \<or> truthy (ModerateContentApiKey env))"
  by (simp add: ratingApiBase_def)

lemma ratingApi_tgchannel_nonempty:
  "(ratingApi_tgchannel env \<noteq> []) = (truthy (RATINGAPI env) \<or> truthy (ModerateContentApiKey env))"
  by (simp add: ratingApi_tgchannel_def Let_def)

text \<open>
  C9 (as amended). In the deferred variants (\<open>getRating\<close>): the rating is -1 whenever the
  file path is not resolved, whatever is configured; with the path resolved it is 0 when
  neither a base URL nor a moderation key is configured, and -1 when one is configured
  and the call to the service fails or its answer has no rating index. A failing call to
  the backend and an answer that is not ok both leave the path unresolved. In the
  tgchannel route (\<open>getRating_tgchannel\<close>): the rating is 0 when neither is configured,
  and -1 when one is configured and the call fails or its answer has no rating index.
\<close>


theorem C9_rating_values:
  "(\<not> truthy (fst (getFilePath w fid)) \<longrightarrow> fst (getRating env w fid) = - 1)
   \<and> (truthy (fst (getFilePath w fid))
        \<and> \<not> truthy (RATINGAPI env) \<and> \<not> truthy (ModerateContentApiKey env)
        \<longrightarrow> fst (getRating env w fid) = 0)
   \<and> (truthy (fst (getFilePath w fid))
        \<and> (truthy (RATINGAPI env) \<or> truthy (ModerateContentApiKey env))
        \<and> ((\<exists>e. rating_reply w = Inl e) \<or> rating_reply w = Inr None)
        \<longrightarrow> fst (getRating env w fid) = - 1)
   \<and> (\<not> truthy (RATINGAPI env) \<and> \<not> truthy (ModerateContentApiKey env)
        \<longrightarrow> fst (getRating_tgchannel env w fid) = 0)
   \<and> ((truthy (RATINGAPI env) \<or> truthy (ModerateContentApiKey env))
        \<and> ((\<exists>e. rating_reply w = Inl e) \<or> rating_reply w = Inr None)
        \<longrightarrow> fst (getRating_tgchannel env w fid) = - 1)
   \<and> ((\<exists>e. getFile_reply w = Inl e) \<or> (\<exists>d. getFile_reply w = Inr d \<and> \<not> gf_ok d)
        \<longrightarrow> \<not> truthy (fst (getFilePath w fid)))"
proof -
  have a: "\<not> truthy (fst (getFilePath w fid)) \<longrightarrow> fst (getRating env w fid) = - 1"
    by (simp add: getRating_def case_prod_beta)
  have b: "truthy (fst (getFilePath w fid))
        \<and> \<not> truthy (RATINGAPI env) \<and> \<not> truthy (ModerateContentApiKey env)
        \<longrightarrow> fst (getRating env w fid) = 0"
    by (simp add: getRating_def case_prod_beta ratingApiBase_truthy)
  have c: "truthy (fst (getFilePath w fid))
        \<and> (truthy (RATINGAPI env) \<or> truthy (ModerateContentApiKey env))
        \<and> ((\<exists>e. rating_reply w = Inl e) \<or> rating_reply w = Inr None)
        \<longrightarrow> fst (getRating env w fid) = - 1"
    by (auto simp: getRating_def case_prod_beta ratingApiBase_truthy)
  have d: "\<not> truthy (RATINGAPI env) \<and> \<not> truthy (ModerateContentApiKey env)
        \<longrightarrow> fst (getRating_tgchannel env w fid) = 0"
    by (simp add: getRating_tgchannel_def case_prod_beta ratingApi_tgchannel_nonempty)
  have e: "(truthy (RATINGAPI env) \<or> truthy (ModerateContentApiKey env))
        \<and> ((\<exists>e. rating_reply w = Inl e) \<or> rating_reply w = Inr None)
        \<longrightarrow> fst (getRating_tgchannel env w fid) = - 1"
    by (auto simp: getRating_tgchannel_def case_prod_beta ratingApi_tgchannel_nonempty)
  have f: "(\<exists>e. getFile_reply w = Inl e) \<or> (\<exists>d. getFile_reply w = Inr d \<and> \<not> gf_ok d)
        \<longrightarrow> \<not> truthy (fst (getFilePath w fid))"
    by (auto simp: getFilePath_failure)
  from a b c d e f show ?thesis by blast
qed

text \<open>
  C9 as stated fails where no rating service is configured and the path resolution
  fails: the claim gives both 0 and -1 there; the deferred variants compute -1 and the
  tgchannel route computes 0.
\<close>


theorem C9_counterexample:
  "\<not> truthy (RATINGAPI no_rating_env) \<and> \<not> truthy (ModerateContentApiKey no_rating_env)
   \<and> fst (getFilePath unresolved_world ''id-5000'') = None
   \<and> fst (getFile_path_tgchannel unresolved_world ''id-5000'') = Some ''error''
   \<and> fst (getRating no_rating_env unresolved_world ''id-5000'') = - 1
   \<and> fst (getRating_tgchannel no_rating_env unresolved_world ''id-5000'') = 0"
  by (simp add: getRating_def getRating_tgchannel_def getFilePath_def getFile_path_tgchannel_def
      ratingApiBase_def ratingApi_tgchannel_def no_rating_env_def sample_env_def
      unresolved_world_def sample_world_def)

text \<open>C9 at the sample data, one instance for each of its five cases.\<close>


theorem C9_witness:
  "\<not> truthy (fst (getFilePath unresolved_world ''id-5000''))
   \<and> fst (getRating sample_env unresolved_world ''id-5000'') = - 1
   \<and> truthy (fst (getFilePath sample_world ''id-5000''))
   \<and> fst (getRating no_rating_env sample_world ''id-5000'') = 0
   \<and> truthy (ModerateContentApiKey sample_env)
   \<and> rating_reply (sample_world\<lparr>rating_reply := Inr None\<rparr>) = Inr None
   \<and> fst (getRating sample_env (sample_world\<lparr>rating_reply := Inr None\<rparr>) ''id-5000'') = - 1
   \<and> fst (getRating_tgchannel no_rating_env sample_world ''id-5000'') = 0
   \<and> fst (getRating_tgchannel sample_env (sample_world\<lparr>rating_reply := Inr None\<rparr>) ''id-5000'') = - 1"
proof -
  have h1: "\<not> truthy (fst (getFilePath unresolved_world ''id-5000''))"
    by (simp add: getFilePath_def unresolved_world_def sample_world_def)
  have h2: "truthy (fst (getFilePath sample_world ''id-5000''))"
    by (simp add: getFilePath_def sample_world_def)
  have h2': "truthy (fst (getFilePath (sample_world\<lparr>rating_reply := Inr None\<rparr>) ''id-5000''))"
    by (simp add: getFilePath_def sample_world_def)
  have h3: "\<not> truthy (RATINGAPI no_rating_env) \<and> \<not> truthy (ModerateContentApiKey no_rating_env)"
    by (simp add: no_rating_env_def sample_env_def)
  have h4: "truthy (ModerateContentApiKey sample_env)" by (simp add: sample_env_def)
  have h5: "rating_reply (sample_world\<lparr>rating_reply := Inr None\<rparr>) = Inr None" by simp
  note t1 = C9_rating_values [of unresolved_world "''id-5000''" sample_env]
  note t2 = C9_rating_values [of sample_world "''id-5000''" no_rating_env]
  note t3 = C9_rating_values [of "sample_world\<lparr>rating_reply := Inr None\<rparr>" "''id-5000''" sample_env]
  have c1: "fst (getRating sample_env unresolved_world ''id-5000'') = - 1"
    using t1 h1 by (elim conjE) (erule mp)
  have c2: "fst (getRating no_rating_env sample_world ''id-5000'') = 0"
    using t2 h2 h3 by (elim conjE) simp
  have c3: "fst (getRating sample_env (sample_world\<lparr>rating_reply := Inr None\<rparr>) ''id-5000'') = - 1"
    using t3 h2' h4 h5 by (elim conjE) simp
  have c4: "fst (getRating_tgchannel no_rating_env sample_world ''id-5000'') = 0"
    using t2 h3 by (elim conjE) simp
  have c5: "fst (getRating_tgchannel sample_env (sample_world\<lparr>rating_reply := Inr None\<rparr>) ''id-5000'') = - 1"
    using t3 h4 h5 by (elim conjE) simp
  from h1 c1 h2 c2 h4 h5 c3 c4 c5 show ?thesis by (intro conjI)
qed

section \<open>Failures of the bookkeeping\<close>


lemma upload_handler_response_independent:
  "fst (upload_handler pathPrefix request env
          (w\<lparr>getFile_reply := g, rating_reply := rr, insert_throws := b\<rparr>))
     = fst (upload_handler pathPrefix request env w)"
  by (simp add: upload_handler_def Let_def
      split: sum.splits option.splits form_value.splits)

lemma tgchannel_insert_independent:
  "fst (POST_tgchannel request env (w\<lparr>insert_throws := b\<rparr>)) = fst (POST_tgchannel request env w)"
  by (simp add: POST_tgchannel_def Let_def case_prod_beta getRating_tgchannel_def
      getFile_path_tgchannel_def
      split: sum.splits option.splits)

lemma tgchannel_status_independent:
  "status_of (POST_tgchannel request env
          (w\<lparr>getFile_reply := g, rating_reply := rr, insert_throws := b\<rparr>))
     = status_of (POST_tgchannel request env w)"
  by (simp add: POST_tgchannel_def Let_def case_prod_beta status_of_def json_response_def
      split: sum.splits option.splits)

lemma tgchannel_payload_independent:
  "k \<noteq> ''rating_index'' \<Longrightarrow>
   payload (POST_tgchannel request env
          (w\<lparr>getFile_reply := g, rating_reply := rr, insert_throws := b\<rparr>)) k
     = payload (POST_tgchannel request env w) k"
  by (simp add: POST_tgchannel_def Let_def case_prod_beta payload_def json_response_def
      split: sum.splits option.splits)

lemma getRating_tgchannel_failed:
  "truthy (RATINGAPI env) \<or> truthy (ModerateContentApiKey env) \<Longrightarrow> rating_reply w = Inl e \<Longrightarrow>
   fst (getRating_tgchannel env w fid) = - 1"
  by (simp add: getRating_tgchannel_def case_prod_beta ratingApi_tgchannel_nonempty)

lemma tgchannel_payload_rating:
  assumes "status_of (POST_tgchannel request env w) = Some 200" and "IMG env"
    and "truthy (RATINGAPI env) \<or> truthy (ModerateContentApiKey env)"
    and "rating_reply w = Inl e"
  shows "payload (POST_tgchannel request env w) ''rating_index'' = Some (JNum (- 1))"
  using assms(1,2) getRating_tgchannel_failed [OF assms(3,4)]
  by (auto simp: POST_tgchannel_def Let_def case_prod_beta payload_def status_of_def
      json_response_def failed_500_def
      split: sum.splits option.splits)

text \<open>
  C3 (as amended). A failure of the bookkeeping never turns a successful upload into an
  error. In the two deferred variants the whole response is the same whatever the path
  resolution, the rating service and the insert do. In the tgchannel route, which awaits
  the bookkeeping before it answers, a failing insert changes nothing in the response,
  and the status and every field of the payload other than \<^verbatim>\<open>rating_index\<close> are the same
  whatever the bookkeeping does; \<^verbatim>\<open>rating_index\<close> carries the rating computed, which is
  -1 when a rating service is configured and the call to it fails.
\<close>


theorem C3_bookkeeping_failures:
  "fst (POST_upload request env (w\<lparr>getFile_reply := g, rating_reply := rr, insert_throws := b\<rparr>))
     = fst (POST_upload request env w)
   \<and> fst (POST_cfile request env (w\<lparr>getFile_reply := g, rating_reply := rr, insert_throws := b\<rparr>))
     = fst (POST_cfile request env w)
   \<and> fst (POST_tgchannel request env (w\<lparr>insert_throws := b\<rparr>))
     = fst (POST_tgchannel request env w)
   \<and> status_of (POST_tgchannel request env
          (w\<lparr>getFile_reply := g, rating_reply := rr, insert_throws := b\<rparr>))
     = status_of (POST_tgchannel request env w)
   \<and> (k \<noteq> ''rating_index'' \<longrightarrow>
        payload (POST_tgchannel request env
          (w\<lparr>getFile_reply := g, rating_reply := rr, insert_throws := b\<rparr>)) k
        = payload (POST_tgchannel request env w) k)
   \<and> (status_of (POST_tgchannel request env w) = Some 200 \<and> IMG env
        \<and> (truthy (RATINGAPI env) \<or> truthy (ModerateContentApiKey env))
        \<and> (\<exists>e. rating_reply w = Inl e)
        \<longrightarrow> payload (POST_tgchannel request env w) ''rating_index'' = Some (JNum (- 1)))"
proof (intro conjI impI)
  show "fst (POST_upload request env (w\<lparr>getFile_reply := g, rating_reply := rr, insert_throws := b\<rparr>))
     = fst (POST_upload request env w)"
    unfolding POST_upload_def by (rule upload_handler_response_independent)
  show "fst (POST_cfile request env (w\<lparr>getFile_reply := g, rating_reply := rr, insert_throws := b\<rparr>))
     = fst (POST_cfile request env w)"
    unfolding POST_cfile_def by (rule upload_handler_response_independent)
  show "fst (POST_tgchannel request env (w\<lparr>insert_throws := b\<rparr>))
     = fst (POST_tgchannel request env w)"
    by (rule tgchannel_insert_independent)
  show "status_of (POST_tgchannel request env
          (w\<lparr>getFile_reply := g, rating_reply := rr, insert_throws := b\<rparr>))
     = status_of (POST_tgchannel request env w)"
    by (rule tgchannel_status_independent)
  show "payload (POST_tgchannel request env
          (w\<lparr>getFile_reply := g, rating_reply := rr, insert_throws := b\<rparr>)) k
        = payload (POST_tgchannel request env w) k" if "k \<noteq> ''rating_index''"
    using that by (rule tgchannel_payload_independent)
  show "payload (POST_tgchannel request env w) ''rating_index'' = Some (JNum (- 1))"
    if "status_of (POST_tgchannel request env w) = Some 200 \<and> IMG env
        \<and> (truthy (RATINGAPI env) \<or> truthy (ModerateContentApiKey env))
        \<and> (\<exists>e. rating_reply w = Inl e)"
    using that tgchannel_payload_rating by blast
qed

lemma sample_tgchannel_200:
  "status_of (POST_tgchannel sample_request sample_env sample_world) = Some 200"
  by (simp add: tgchannel_defs sample_defs)

lemma sample_tgchannel_rating:
  "payload (POST_tgchannel sample_request sample_env sample_world) ''rating_index'' = Some (JNum 1)"
  by (simp add: tgchannel_defs sample_defs)

lemma rating_down_tgchannel_200:
  "status_of (POST_tgchannel sample_request sample_env rating_down_world) = Some 200"
  by (simp add: tgchannel_defs sample_defs rating_down_world_def)

text \<open>
  C3 as stated fails in the tgchannel route: with the rating service down the response
  is still a 200, but its payload differs from the one of the same upload with the
  service up (\<^verbatim>\<open>rating_index\<close> is -1 instead of 1).
\<close>


theorem C3_counterexample:
  "status_of (POST_tgchannel sample_request sample_env sample_world) = Some 200
   \<and> status_of (POST_tgchannel sample_request sample_env rating_down_world) = Some 200
   \<and> payload (POST_tgchannel sample_request sample_env sample_world) ''rating_index''
       = Some (JNum 1)
   \<and> payload (POST_tgchannel sample_request sample_env rating_down_world) ''rating_index''
       = Some (JNum (- 1))
   \<and> fst (POST_tgchannel sample_request sample_env rating_down_world)
       \<noteq> fst (POST_tgchannel sample_request sample_env sample_world)"
proof -
  have a: "payload (POST_tgchannel sample_request sample_env rating_down_world) ''rating_index''
       = Some (JNum (- 1))"
    by (simp add: tgchannel_defs sample_defs rating_down_world_def)
  have "payload (POST_tgchannel sample_request sample_env rating_down_world) ''rating_index''
       \<noteq> payload (POST_tgchannel sample_request sample_env sample_world) ''rating_index''"
    by (simp add: a sample_tgchannel_rating)
  then have b: "fst (POST_tgchannel sample_request sample_env rating_down_world)
       \<noteq> fst (POST_tgchannel sample_request sample_env sample_world)"
    by (auto simp: payload_def)
  from sample_tgchannel_200 rating_down_tgchannel_200 sample_tgchannel_rating a b
  show ?thesis by (intro conjI)
qed

text \<open>C3 at the sample upload with every step of the bookkeeping failing.\<close>


theorem C3_witness:
  "fst (POST_upload sample_request sample_env bookkeeping_down_world)
     = fst (POST_upload sample_request sample_env sample_world)
   \<and> status_of (POST_upload sample_request sample_env bookkeeping_down_world) = Some 200
   \<and> fst (POST_cfile sample_request sample_env bookkeeping_down_world)
     = fst (POST_cfile sample_request sample_env sample_world)
   \<and> status_of (POST_tgchannel sample_request sample_env bookkeeping_down_world) = Some 200
   \<and> payload (POST_tgchannel sample_request sample_env bookkeeping_down_world) ''name''
     = payload (POST_tgchannel sample_request sample_env sample_world) ''name''
   \<and> rating_reply rating_down_world = Inl FetchError
   \<and> payload (POST_tgchannel sample_request sample_env rating_down_world) ''rating_index''
     = Some (JNum (- 1))"
proof -
  note t = C3_bookkeeping_failures [where request = sample_request and env = sample_env
      and w = sample_world and g = "Inl FetchError" and rr = "Inl FetchError" and b = True
      and k = "''name''", folded bookkeeping_down_world_def]
  note u = C3_bookkeeping_failures [where request = sample_request and env = sample_env
      and w = rating_down_world and g = "Inl FetchError" and rr = "Inl FetchError" and b = True
      and k = "''name''"]
  have k: "''name'' \<noteq> ''rating_index''" by simp
  have h1: "IMG sample_env" by (simp add: sample_env_def)
  have h2: "truthy (RATINGAPI sample_env) \<or> truthy (ModerateContentApiKey sample_env)"
    by (simp add: sample_env_def)
  have h3: "rating_reply rating_down_world = Inl FetchError"
    by (simp add: rating_down_world_def)
  have c1: "fst (POST_upload sample_request sample_env bookkeeping_down_world)
     = fst (POST_upload sample_request sample_env sample_world)"
    using t by (elim conjE)
  have c2: "status_of (POST_upload sample_request sample_env bookkeeping_down_world) = Some 200"
    unfolding status_of_def c1 by (simp add: upload_defs sample_defs)
  have c3: "fst (POST_cfile sample_request sample_env bookkeeping_down_world)
     = fst (POST_cfile sample_request sample_env sample_world)"
    using t by (elim conjE)
  have c4: "status_of (POST_tgchannel sample_request sample_env bookkeeping_down_world) = Some 200"
    using t sample_tgchannel_200 by (elim conjE) simp
  have c5: "payload (POST_tgchannel sample_request sample_env bookkeeping_down_world) ''name''
     = payload (POST_tgchannel sample_request sample_env sample_world) ''name''"
    using t k by (elim conjE) simp
  have c6: "payload (POST_tgchannel sample_request sample_env rating_down_world) ''rating_index''
     = Some (JNum (- 1))"
    using u rating_down_tgchannel_200 h1 h2 h3 by (elim conjE) blast
  from c1 c2 c3 c4 c5 h3 c6 show ?thesis by (intro conjI)
qed

section \<open>Retrieval with a trusted referer\<close>


lemmas retrieval_defs =
  GET_cfile_def GET_legacy_def getFilePath_def getFile_path_legacy_def getRatingFromDb_def
  getRating_legacy_def insertViewLog_def insertTgImgLog_def remote_ip_legacy_def
  first_address_def trim_def is_space_def last_segment_def json_response_def file_response_def
  redirect_def status_of_def served_bytes_def trusted_cfile_def trusted_legacy_def
  referer_of_def Let_def

lemmas retrieval_sample_defs =
  sample_request_def admin_request_def sample_env_def sample_world_def sample_download_def
  download_failed_world_def blocked_world_def blocked_unresolved_world_def
  blocked_select_fails_world_def

lemma sample_untrusted:
  "\<not> trusted_cfile sample_request" "\<not> trusted_legacy sample_request"
  by (simp_all add: trusted_cfile_def trusted_legacy_def referer_of_def sample_request_def)

lemma admin_trusted:
  "trusted_cfile admin_request" "trusted_legacy admin_request"
  by (simp_all add: trusted_cfile_def trusted_legacy_def referer_of_def admin_request_def
      sample_request_def)

lemma sample_resolves:
  "truthy (fst (getFilePath sample_world ''id-5000''))"
  "fst (getFile_path_legacy sample_world ''id-5000'') \<noteq> ''error''"
  "truthy (fst (getFilePath blocked_world ''id-5000''))"
  "fst (getFile_path_legacy blocked_world ''id-5000'') \<noteq> ''error''"
  "truthy (fst (getFilePath download_failed_world ''id-5000''))"
  "fst (getFile_path_legacy download_failed_world ''id-5000'') \<noteq> ''error''"
  by (simp_all add: getFilePath_def getFile_path_legacy_def retrieval_sample_defs)

lemma getFilePath_no_store [simp]:
  "list_ex is_log_insert (snd (getFilePath w fid)) = False"
  "list_ex is_rating_query (snd (getFilePath w fid)) = False"
  "filter is_increment (snd (getFilePath w fid)) = []"
  by (simp_all add: getFilePath_def split: sum.splits option.splits)

lemma getFile_path_legacy_no_store [simp]:
  "list_ex is_log_insert (snd (getFile_path_legacy w fid)) = False"
  "list_ex is_rating_query (snd (getFile_path_legacy w fid)) = False"
  "filter is_increment (snd (getFile_path_legacy w fid)) = []"
  by (simp_all add: getFile_path_legacy_def split: sum.splits option.splits)

lemma GET_cfile_trusted_no_store:
  "trusted_cfile request \<Longrightarrow>
   \<not> list_ex is_log_insert (snd (GET_cfile request fid env w))
   \<and> \<not> list_ex is_rating_query (snd (GET_cfile request fid env w))"
  by (auto simp: GET_cfile_def trusted_cfile_def referer_of_def Let_def case_prod_beta
      split: sum.splits)

lemma GET_legacy_trusted_no_store:
  "trusted_legacy request \<Longrightarrow>
   \<not> list_ex is_log_insert (snd (GET_legacy request fid env w))
   \<and> \<not> list_ex is_rating_query (snd (GET_legacy request fid env w))"
  by (auto simp: GET_legacy_def trusted_legacy_def referer_of_def Let_def case_prod_beta
      split: sum.splits)

lemma GET_cfile_trusted_serves:
  assumes "trusted_cfile request" and "truthy (fst (getFilePath w fid))"
    and "download_reply w = Inr dl" and "dl_ok dl"
  shows "status_of (GET_cfile request fid env w) = Some 200
     \<and> served_bytes (GET_cfile request fid env w) = Some (dl_body dl)"
  using assms
  by (auto simp: GET_cfile_def trusted_cfile_def referer_of_def Let_def case_prod_beta
      status_of_def served_bytes_def file_response_def)

lemma GET_legacy_trusted_serves:
  assumes "trusted_legacy request" and "fst (getFile_path_legacy w fid) \<noteq> ''error''"
    and "download_reply w = Inr dl" and "dl_ok dl"
  shows "status_of (GET_legacy request fid env w) = Some 200
     \<and> served_bytes (GET_legacy request fid env w) = Some (dl_body dl)"
  using assms
  by (auto simp: GET_legacy_def trusted_legacy_def referer_of_def Let_def case_prod_beta
      status_of_def served_bytes_def file_response_def)

text \<open>
  C6 (as amended). A retrieval whose referer is trusted issues no log insert and no
  rating query, in both handlers, whatever the backend answers and also when a store is
  configured. When moreover the identifier resolves to a path and the download of the
  bytes succeeds, the handler answers 200 with the downloaded bytes.
\<close>


theorem C6_trusted_referer:
  "(trusted_cfile request \<longrightarrow>
      \<not> list_ex is_log_insert (snd (GET_cfile request fid env w))
      \<and> \<not> list_ex is_rating_query (snd (GET_cfile request fid env w)))
   \<and> (trusted_legacy request \<longrightarrow>
      \<not> list_ex is_log_insert (snd (GET_legacy request fid env w))
      \<and> \<not> list_ex is_rating_query (snd (GET_legacy request fid env w)))
   \<and> (trusted_cfile request \<and> truthy (fst (getFilePath w fid))
        \<and> download_reply w = Inr dl \<and> dl_ok dl \<longrightarrow>
      status_of (GET_cfile request fid env w) = Some 200
      \<and> served_bytes (GET_cfile request fid env w) = Some (dl_body dl))
   \<and> (trusted_legacy request \<and> fst (getFile_path_legacy w fid) \<noteq> ''error''
        \<and> download_reply w = Inr dl \<and> dl_ok dl \<longrightarrow>
      status_of (GET_legacy request fid env w) = Some 200
      \<and> served_bytes (GET_legacy request fid env w) = Some (dl_body dl))"
  using GET_cfile_trusted_no_store [of request fid env w]
    GET_legacy_trusted_no_store [of request fid env w]
    GET_cfile_trusted_serves [of request w fid dl env]
    GET_legacy_trusted_serves [of request w fid dl env]
  by blast

text \<open>
  C6 as stated fails when the identifier resolves but the download does not succeed:
  the handler passes the upstream status 404 on and serves no bytes.
\<close>


theorem C6_counterexample:
  "trusted_cfile admin_request \<and> trusted_legacy admin_request
   \<and> truthy (fst (getFilePath download_failed_world ''id-5000''))
   \<and> fst (getFile_path_legacy download_failed_world ''id-5000'') \<noteq> ''error''
   \<and> status_of (GET_cfile admin_request ''id-5000'' sample_env download_failed_world) = Some 404
   \<and> served_bytes (GET_cfile admin_request ''id-5000'' sample_env download_failed_world) = None
   \<and> status_of (GET_legacy admin_request ''id-5000'' sample_env download_failed_world) = Some 404
   \<and> served_bytes (GET_legacy admin_request ''id-5000'' sample_env download_failed_world) = None"
proof -
  have a: "status_of (GET_cfile admin_request ''id-5000'' sample_env download_failed_world) = Some 404"
    by (simp add: retrieval_defs retrieval_sample_defs)
  have b: "served_bytes (GET_cfile admin_request ''id-5000'' sample_env download_failed_world) = None"
    by (simp add: retrieval_defs retrieval_sample_defs)
  have c: "status_of (GET_legacy admin_request ''id-5000'' sample_env download_failed_world) = Some 404"
    by (simp add: retrieval_defs retrieval_sample_defs)
  have d: "served_bytes (GET_legacy admin_request ''id-5000'' sample_env download_failed_world) = None"
    by (simp add: retrieval_defs retrieval_sample_defs)
  from admin_trusted sample_resolves(5,6) a b c d show ?thesis by (intro conjI)
qed

text \<open>C6 at a request from the admin page, with the store configured.\<close>


theorem C6_witness:
  "trusted_cfile admin_request \<and> trusted_legacy admin_request \<and> IMG sample_env
   \<and> download_reply sample_world = Inr sample_download \<and> dl_ok sample_download
   \<and> \<not> list_ex is_log_insert (snd (GET_cfile admin_request ''id-5000'' sample_env sample_world))
   \<and> \<not> list_ex is_rating_query (snd (GET_cfile admin_request ''id-5000'' sample_env sample_world))
   \<and> \<not> list_ex is_log_insert (snd (GET_legacy admin_request ''id-5000'' sample_env sample_world))
   \<and> \<not> list_ex is_rating_query (snd (GET_legacy admin_request ''id-5000'' sample_env sample_world))
   \<and> status_of (GET_cfile admin_request ''id-5000'' sample_env sample_world) = Some 200
   \<and> served_bytes (GET_cfile admin_request ''id-5000'' sample_env sample_world) = Some ''JPEGDATA''
   \<and> status_of (GET_legacy admin_request ''id-5000'' sample_env sample_world) = Some 200
   \<and> served_bytes (GET_legacy admin_request ''id-5000'' sample_env sample_world) = Some ''JPEGDATA''"
proof -
  note t = C6_trusted_referer [where request = admin_request and fid = "''id-5000''"
      and env = sample_env and w = sample_world and dl = sample_download]
  have h1: "IMG sample_env" by (simp add: sample_env_def)
  have h2: "download_reply sample_world = Inr sample_download"
    by (simp add: sample_world_def sample_download_def)
  have h3: "dl_ok sample_download" by (simp add: sample_download_def)
  have h4: "dl_body sample_download = ''JPEGDATA''" by (simp add: sample_download_def)
  have c1: "\<not> list_ex is_log_insert (snd (GET_cfile admin_request ''id-5000'' sample_env sample_world))
   \<and> \<not> list_ex is_rating_query (snd (GET_cfile admin_request ''id-5000'' sample_env sample_world))"
    using t admin_trusted(1) by (elim conjE) (erule mp)
  have c2: "\<not> list_ex is_log_insert (snd (GET_legacy admin_request ''id-5000'' sample_env sample_world))
   \<and> \<not> list_ex is_rating_query (snd (GET_legacy admin_request ''id-5000'' sample_env sample_world))"
    using t admin_trusted(2) by (elim conjE) (erule mp)
  have c3: "status_of (GET_cfile admin_request ''id-5000'' sample_env sample_world) = Some 200
      \<and> served_bytes (GET_cfile admin_request ''id-5000'' sample_env sample_world) = Some (dl_body sample_download)"
    using t admin_trusted(1) sample_resolves(1) h2 h3 by (elim conjE) simp
  have c4: "status_of (GET_legacy admin_request ''id-5000'' sample_env sample_world) = Some 200
      \<and> served_bytes (GET_legacy admin_request ''id-5000'' sample_env sample_world) = Some (dl_body sample_download)"
    using t admin_trusted(2) sample_resolves(2) h2 h3 by (elim conjE) simp
  from admin_trusted h1 h2 h3 c1 c2 c3 c4 show ?thesis unfolding h4 by (intro conjI) simp_all
qed

section \<open>Retrieval of a blocked file\<close>


lemma insertViewLog_no_increment [simp]:
  "filter is_increment (insertViewLog w url referer ip time) = []"
  "filter is_increment (insertTgImgLog w url referer ip time) = []"
  by (simp_all add: insertViewLog_def insertTgImgLog_def)

lemma getRatingFromDb_cases:
  "getRatingFromDb w url =
     (if select_throws w then (None, [ImginfoSelect url, Console])
      else if imginfo w url = None then (None, [ImginfoSelect url])
      else (imginfo w url, [ImginfoSelect url, ImginfoIncrement url]))"
  by (auto simp: getRatingFromDb_def split: option.splits)

lemma GET_cfile_blocked_no_bytes:
  assumes "\<not> trusted_cfile request" and "IMG env" and "\<not> select_throws w"
    and "imginfo w (''/api/cfile/'' @ fid) = Some 3"
  shows "served_bytes (GET_cfile request fid env w) = None"
  using assms
  by (auto simp: GET_cfile_def trusted_cfile_def referer_of_def Let_def case_prod_beta
      served_bytes_def json_response_def redirect_def getRatingFromDb_cases
      split: sum.splits)

lemma GET_cfile_blocked_redirect:
  assumes "\<not> trusted_cfile request" and "IMG env" and "\<not> select_throws w"
    and "imginfo w (''/api/cfile/'' @ fid) = Some 3"
    and "truthy (fst (getFilePath w fid))" and "download_reply w = Inr dl" and "dl_ok dl"
  shows "fst (GET_cfile request fid env w) = Inr (redirect (origin request @ ''/img/blocked.png'') 302)"
  using assms
  by (auto simp: GET_cfile_def trusted_cfile_def referer_of_def Let_def case_prod_beta
      getRatingFromDb_cases)

lemma GET_legacy_blocked_no_bytes:
  assumes "\<not> trusted_legacy request" and "IMG env" and "\<not> select_throws w"
    and "imginfo w (''/cfile/'' @ fid) = Some 3"
  shows "served_bytes (GET_legacy request fid env w) = None"
  using assms
  by (auto simp: GET_legacy_def trusted_legacy_def referer_of_def Let_def case_prod_beta
      served_bytes_def json_response_def redirect_def getRating_legacy_def
      split: sum.splits)

lemma GET_legacy_blocked_redirect:
  assumes "\<not> trusted_legacy request" and "IMG env" and "\<not> select_throws w"
    and "imginfo w (''/cfile/'' @ fid) = Some 3"
    and "fst (getFile_path_legacy w fid) \<noteq> ''error''" and "download_reply w = Inr dl" and "dl_ok dl"
  shows "fst (GET_legacy request fid env w) = Inr (redirect (origin request @ ''/img/blocked.png'') 302)"
  using assms
  by (auto simp: GET_legacy_def trusted_legacy_def referer_of_def Let_def case_prod_beta
      getRating_legacy_def)

text \<open>
  C1 (as amended). Take a retrieval whose referer is not trusted, with the store
  configured, where the lookup does not fail and the store holds rating 3 for the
  retrieval path (\<^verbatim>\<open>/api/cfile/<id>\<close> in the newer handler, \<^verbatim>\<open>/cfile/<id>\<close> in the older
  one). Then the answer never carries the file bytes; and when the identifier resolves
  to a path and the download succeeds, the answer is the 302 redirect to
  \<^verbatim>\<open><origin>/img/blocked.png\<close>.
\<close>


theorem C1_blocked_rating:
  "(\<not> trusted_cfile request \<and> IMG env \<and> \<not> select_throws w
      \<and> imginfo w (''/api/cfile/'' @ fid) = Some 3
      \<longrightarrow> served_bytes (GET_cfile request fid env w) = None)
   \<and> (\<not> trusted_cfile request \<and> IMG env \<and> \<not> select_throws w
      \<and> imginfo w (''/api/cfile/'' @ fid) = Some 3
      \<and> truthy (fst (getFilePath w fid)) \<and> download_reply w = Inr dl \<and> dl_ok dl
      \<longrightarrow> fst (GET_cfile request fid env w)
            = Inr (redirect (origin request @ ''/img/blocked.png'') 302))
   \<and> (\<not> trusted_legacy request \<and> IMG env \<and> \<not> select_throws w
      \<and> imginfo w (''/cfile/'' @ fid) = Some 3
      \<longrightarrow> served_bytes (GET_legacy request fid env w) = None)
   \<and> (\<not> trusted_legacy request \<and> IMG env \<and> \<not> select_throws w
      \<and> imginfo w (''/cfile/'' @ fid) = Some 3
      \<and> fst (getFile_path_legacy w fid) \<noteq> ''error'' \<and> download_reply w = Inr dl \<and> dl_ok dl
      \<longrightarrow> fst (GET_legacy request fid env w)
            = Inr (redirect (origin request @ ''/img/blocked.png'') 302))"
  using GET_cfile_blocked_no_bytes [of request env w fid]
    GET_cfile_blocked_redirect [of request env w fid dl]
    GET_legacy_blocked_no_bytes [of request env w fid]
    GET_legacy_blocked_redirect [of request env w fid dl]
  by blast

lemma blocked_store:
  "IMG sample_env" "\<not> select_throws blocked_world"
  "imginfo blocked_world (''/api/cfile/'' @ ''id-5000'') = Some 3"
  "imginfo blocked_world (''/cfile/'' @ ''id-5000'') = Some 3"
  "download_reply blocked_world = Inr sample_download" "dl_ok sample_download"
  by (simp_all add: retrieval_sample_defs)

text \<open>
  C1 as stated fails in two ways. When the backend does not resolve the identifier the
  answer is 502 (500 in the older handler), not a 302. And when the lookup in the store
  fails, the newer handler treats the file as unrated and serves its bytes, although the
  store holds rating 3.
\<close>


theorem C1_counterexample:
  "\<not> trusted_cfile sample_request \<and> \<not> trusted_legacy sample_request
   \<and> imginfo blocked_unresolved_world ''/api/cfile/id-5000'' = Some 3
   \<and> imginfo blocked_unresolved_world ''/cfile/id-5000'' = Some 3
   \<and> status_of (GET_cfile sample_request ''id-5000'' sample_env blocked_unresolved_world) = Some 502
   \<and> status_of (GET_legacy sample_request ''id-5000'' sample_env blocked_unresolved_world) = Some 500
   \<and> imginfo blocked_select_fails_world ''/api/cfile/id-5000'' = Some 3
   \<and> status_of (GET_cfile sample_request ''id-5000'' sample_env blocked_select_fails_world) = Some 200
   \<and> served_bytes (GET_cfile sample_request ''id-5000'' sample_env blocked_select_fails_world)
       = Some ''JPEGDATA''"
proof -
  have a: "imginfo blocked_unresolved_world ''/api/cfile/id-5000'' = Some 3"
    "imginfo blocked_unresolved_world ''/cfile/id-5000'' = Some 3"
    "imginfo blocked_select_fails_world ''/api/cfile/id-5000'' = Some 3"
    by (simp_all add: retrieval_sample_defs)
  have b: "status_of (GET_cfile sample_request ''id-5000'' sample_env blocked_unresolved_world) = Some 502"
    by (simp add: retrieval_defs retrieval_sample_defs)
  have c: "status_of (GET_legacy sample_request ''id-5000'' sample_env blocked_unresolved_world) = Some 500"
    by (simp add: retrieval_defs retrieval_sample_defs)
  have d: "status_of (GET_cfile sample_request ''id-5000'' sample_env blocked_select_fails_world) = Some 200"
    by (simp add: retrieval_defs retrieval_sample_defs)
  have e: "served_bytes (GET_cfile sample_request ''id-5000'' sample_env blocked_select_fails_world)
       = Some ''JPEGDATA''"
    by (simp add: retrieval_defs retrieval_sample_defs)
  from sample_untrusted a b c d e show ?thesis by (intro conjI)
qed

text \<open>C1 at the sample retrieval of a file rated 3.\<close>


theorem C1_witness:
  "\<not> trusted_cfile sample_request \<and> \<not> trusted_legacy sample_request \<and> IMG sample_env
   \<and> \<not> select_throws blocked_world
   \<and> imginfo blocked_world (''/api/cfile/'' @ ''id-5000'') = Some 3
   \<and> imginfo blocked_world (''/cfile/'' @ ''id-5000'') = Some 3
   \<and> download_reply blocked_world = Inr sample_download \<and> dl_ok sample_download
   \<and> served_bytes (GET_cfile sample_request ''id-5000'' sample_env blocked_world) = None
   \<and> fst (GET_cfile sample_request ''id-5000'' sample_env blocked_world)
       = Inr (redirect (origin sample_request @ ''/img/blocked.png'') 302)
   \<and> served_bytes (GET_legacy sample_request ''id-5000'' sample_env blocked_world) = None
   \<and> fst (GET_legacy sample_request ''id-5000'' sample_env blocked_world)
       = Inr (redirect (origin sample_request @ ''/img/blocked.png'') 302)"
proof -
  note t = C1_blocked_rating [where request = sample_request and fid = "''id-5000''"
      and env = sample_env and w = blocked_world and dl = sample_download]
  have c1: "served_bytes (GET_cfile sample_request ''id-5000'' sample_env blocked_world) = None"
    using t sample_untrusted(1) blocked_store(1,2,3) by (elim conjE) simp
  have c2: "fst (GET_cfile sample_request ''id-5000'' sample_env blocked_world)
       = Inr (redirect (origin sample_request @ ''/img/blocked.png'') 302)"
    using t sample_untrusted(1) blocked_store(1,2,3,5,6) sample_resolves(3) by (elim conjE) simp
  have c3: "served_bytes (GET_legacy sample_request ''id-5000'' sample_env blocked_world) = None"
    using t sample_untrusted(2) blocked_store(1,2,4) by (elim conjE) simp
  have c4: "fst (GET_legacy sample_request ''id-5000'' sample_env blocked_world)
       = Inr (redirect (origin sample_request @ ''/img/blocked.png'') 302)"
    using t sample_untrusted(2) blocked_store(1,2,4,5,6) sample_resolves(4) by (elim conjE) simp
  from sample_untrusted blocked_store c1 c2 c3 c4 show ?thesis by (intro conjI)
qed

section \<open>The counter update\<close>


lemma GET_cfile_increments:
  "filter is_increment (snd (GET_cfile request fid env w)) = []
   \<or> (\<not> select_throws w \<and> (\<exists>r. imginfo w (''/api/cfile/'' @ fid) = Some r)
      \<and> filter is_increment (snd (GET_cfile request fid env w))
          = [ImginfoIncrement (''/api/cfile/'' @ fid)])"
  by (auto simp: GET_cfile_def Let_def case_prod_beta getRatingFromDb_cases split: sum.splits)

lemma GET_legacy_increments:
  "filter is_increment (snd (GET_legacy request fid env w)) = []
   \<or> (\<not> select_throws w \<and> (\<exists>r. imginfo w (''/cfile/'' @ fid) = Some r)
      \<and> filter is_increment (snd (GET_legacy request fid env w))
          = [ImginfoIncrement (''/cfile/'' @ fid)])"
  by (auto simp: GET_legacy_def Let_def case_prod_beta getRating_legacy_def
      split: sum.splits option.splits)

lemma helpers_ignore_increment_outcome:
  "getFilePath (w\<lparr>increment_throws := b\<rparr>) fid = getFilePath w fid"
  "getFile_path_legacy (w\<lparr>increment_throws := b\<rparr>) fid = getFile_path_legacy w fid"
  "getRatingFromDb (w\<lparr>increment_throws := b\<rparr>) url = getRatingFromDb w url"
  "getRating_legacy (w\<lparr>increment_throws := b\<rparr>) url = getRating_legacy w url"
  "insertViewLog (w\<lparr>increment_throws := b\<rparr>) url referer ip time = insertViewLog w url referer ip time"
  "insertTgImgLog (w\<lparr>increment_throws := b\<rparr>) url referer ip time = insertTgImgLog w url referer ip time"
  by (simp_all add: getFilePath_def getFile_path_legacy_def getRatingFromDb_def
      getRating_legacy_def insertViewLog_def insertTgImgLog_def)

lemma GET_increment_outcome_unobserved:
  "GET_cfile request fid env (w\<lparr>increment_throws := b\<rparr>) = GET_cfile request fid env w"
  "GET_legacy request fid env (w\<lparr>increment_throws := b\<rparr>) = GET_legacy request fid env w"
  by (simp_all add: GET_cfile_def GET_legacy_def helpers_ignore_increment_outcome Let_def
      case_prod_beta split: sum.splits option.splits)

lemma list_ex_filter_empty: "list_ex P xs \<Longrightarrow> filter P xs \<noteq> []"
  by (induction xs) auto

text \<open>
  C8. In both retrieval handlers, for every request: at most one counter update is
  issued; when one is issued, the lookup did not fail and found a row for the retrieval
  path, and the update is for that path; and the response is the same whether the update
  succeeds or fails. A failing update is a rejected promise handed to
  \<^verbatim>\<open>ctx.waitUntil\<close>, which nothing awaits.
\<close>


theorem C8_counter_increment:
  "length (filter is_increment (snd (GET_cfile request fid env w))) \<le> 1
   \<and> (list_ex is_increment (snd (GET_cfile request fid env w)) \<longrightarrow>
        \<not> select_throws w \<and> (\<exists>r. imginfo w (''/api/cfile/'' @ fid) = Some r)
        \<and> filter is_increment (snd (GET_cfile request fid env w))
            = [ImginfoIncrement (''/api/cfile/'' @ fid)])
   \<and> fst (GET_cfile request fid env (w\<lparr>increment_throws := b\<rparr>))
       = fst (GET_cfile request fid env w)
   \<and> length (filter is_increment (snd (GET_legacy request fid env w))) \<le> 1
   \<and> (list_ex is_increment (snd (GET_legacy request fid env w)) \<longrightarrow>
        \<not> select_throws w \<and> (\<exists>r. imginfo w (''/cfile/'' @ fid) = Some r)
        \<and> filter is_increment (snd (GET_legacy request fid env w))
            = [ImginfoIncrement (''/cfile/'' @ fid)])
   \<and> fst (GET_legacy request fid env (w\<lparr>increment_throws := b\<rparr>))
       = fst (GET_legacy request fid env w)"
proof -
  have a: "length (filter is_increment (snd (GET_cfile request fid env w))) \<le> 1"
    using GET_cfile_increments [of request fid env w] by auto
  have b: "list_ex is_increment (snd (GET_cfile request fid env w)) \<longrightarrow>
        \<not> select_throws w \<and> (\<exists>r. imginfo w (''/api/cfile/'' @ fid) = Some r)
        \<and> filter is_increment (snd (GET_cfile request fid env w))
            = [ImginfoIncrement (''/api/cfile/'' @ fid)]"
    using GET_cfile_increments [of request fid env w] list_ex_filter_empty by blast
  have c: "length (filter is_increment (snd (GET_legacy request fid env w))) \<le> 1"
    using GET_legacy_increments [of request fid env w] by auto
  have d: "list_ex is_increment (snd (GET_legacy request fid env w)) \<longrightarrow>
        \<not> select_throws w \<and> (\<exists>r. imginfo w (''/cfile/'' @ fid) = Some r)
        \<and> filter is_increment (snd (GET_legacy request fid env w))
            = [ImginfoIncrement (''/cfile/'' @ fid)]"
    using GET_legacy_increments [of request fid env w] list_ex_filter_empty by blast
  from a b c d show ?thesis
    by (simp add: GET_increment_outcome_unobserved)
qed

lemma blocked_increments:
  "list_ex is_increment (snd (GET_cfile sample_request ''id-5000'' sample_env blocked_world))"
  "list_ex is_increment (snd (GET_legacy sample_request ''id-5000'' sample_env blocked_world))"
  by (simp_all add: retrieval_defs retrieval_sample_defs)

text \<open>C8 at the sample retrieval of a rated file, where the update is issued.\<close>


theorem C8_witness:
  "list_ex is_increment (snd (GET_cfile sample_request ''id-5000'' sample_env blocked_world))
   \<and> list_ex is_increment (snd (GET_legacy sample_request ''id-5000'' sample_env blocked_world))
   \<and> length (filter is_increment (snd (GET_cfile sample_request ''id-5000'' sample_env blocked_world))) \<le> 1
   \<and> length (filter is_increment (snd (GET_legacy sample_request ''id-5000'' sample_env blocked_world))) \<le> 1
   \<and> \<not> select_throws blocked_world
   \<and> (\<exists>r. imginfo blocked_world (''/api/cfile/'' @ ''id-5000'') = Some r)
   \<and> (\<exists>r. imginfo blocked_world (''/cfile/'' @ ''id-5000'') = Some r)
   \<and> filter is_increment (snd (GET_cfile sample_request ''id-5000'' sample_env blocked_world))
       = [ImginfoIncrement (''/api/cfile/'' @ ''id-5000'')]
   \<and> filter is_increment (snd (GET_legacy sample_request ''id-5000'' sample_env blocked_world))
       = [ImginfoIncrement (''/cfile/'' @ ''id-5000'')]
   \<and> fst (GET_cfile sample_request ''id-5000'' sample_env (blocked_world\<lparr>increment_throws := True\<rparr>))
       = fst (GET_cfile sample_request ''id-5000'' sample_env blocked_world)
   \<and> fst (GET_legacy sample_request ''id-5000'' sample_env (blocked_world\<lparr>increment_throws := True\<rparr>))
       = fst (GET_legacy sample_request ''id-5000'' sample_env blocked_world)"
proof -
  note t = C8_counter_increment [where request = sample_request and fid = "''id-5000''"
      and env = sample_env and w = blocked_world and b = True]
  from t blocked_increments show ?thesis by (elim conjE) simp
qed

end
